theory Spec2Isabelle
  imports Complex_Main
begin

section \<open>The environment of the script\<close>

text \<open>
  \<^verbatim>\<open>create_mock_documents.py\<close> builds three ReportLab documents and writes them under
  \<^verbatim>\<open>documents/\<close>. Everything the script touches outside its own variables is made
  explicit in a \<open>world\<close>: the file system (regular files and directories, addressed by
  the relative paths the script uses), write permission, the lines printed on standard
  output, the shell commands handed to \<^verbatim>\<open>os.system\<close>, the date \<^verbatim>\<open>datetime.now()\<close> reads,
  and whether the \<^verbatim>\<open>reportlab\<close> package can be imported.
\<close>

datatype month = January | February | March | April | May | June | July
  | August | September | October | November | December

record date =
  year :: nat
  month :: month
  day :: nat

datatype node = Dir | File string

record world =
  fs :: "string \<Rightarrow> node option"
  writable :: "string \<Rightarrow> bool"
  stdout :: "string list"
  spawned :: "string list"
  today :: date
  reportlab_installed :: bool

text \<open>
  Exceptions are values. \<open>LayoutError\<close> stands for any exception derived from
  \<^verbatim>\<open>Exception\<close> that the rendering library raises, with its message;
  \<open>KeyboardInterrupt\<close> is the one modelled exception that derives from
  \<^verbatim>\<open>BaseException\<close> only, so that \<^verbatim>\<open>except Exception\<close> does not catch it.
\<close>

datatype exn =
    ModuleNotFoundError string
  | FileExistsError string
  | FileNotFoundError string
  | NotADirectoryError string
  | IsADirectoryError string
  | PermissionError string
  | LayoutError string
  | KeyboardInterrupt

fun is_Exception :: "exn \<Rightarrow> bool" where
  "is_Exception KeyboardInterrupt = False"
| "is_Exception _ = True"

definition quoted :: "string \<Rightarrow> string" where
  "quoted s = [CHR 0x27] @ s @ [CHR 0x27]"

text \<open>\<^verbatim>\<open>str(e)\<close>, as the f-string of the handler formats the exception.\<close>

fun str_exn :: "exn \<Rightarrow> string" where
  "str_exn (ModuleNotFoundError m) = ''No module named '' @ quoted m"
| "str_exn (FileExistsError p) = ''[Errno 17] File exists: '' @ quoted p"
| "str_exn (FileNotFoundError p) = ''[Errno 2] No such file or directory: '' @ quoted p"
| "str_exn (NotADirectoryError p) = ''[Errno 20] Not a directory: '' @ quoted p"
| "str_exn (IsADirectoryError p) = ''[Errno 21] Is a directory: '' @ quoted p"
| "str_exn (PermissionError p) = ''[Errno 13] Permission denied: '' @ quoted p"
| "str_exn (LayoutError m) = m"
| "str_exn KeyboardInterrupt = []"

definition print :: "string \<Rightarrow> world \<Rightarrow> world" where
  "print line w = w\<lparr>stdout := stdout w @ [line]\<rparr>"

text \<open>\<^verbatim>\<open>os.system(cmd)\<close>: the command is handed to a shell; its status is ignored.\<close>

definition os_system :: "string \<Rightarrow> world \<Rightarrow> world" where
  "os_system cmd w = w\<lparr>spawned := spawned w @ [cmd]\<rparr>"

text \<open>
  \<^verbatim>\<open>os.makedirs(name, exist_ok=True)\<close> for a one-component relative name: an existing
  directory is accepted, an existing regular file raises, and an absent name is created
  in the current directory when that is writable.
\<close>

definition os_makedirs :: "string \<Rightarrow> world \<Rightarrow> exn + world" where
  "os_makedirs name w =
     (case fs w name of
        Some Dir \<Rightarrow> Inr w
      | Some (File _) \<Rightarrow> Inl (FileExistsError name)
      | None \<Rightarrow>
          if writable w ''.''
          then Inr (w\<lparr>fs := (fs w)(name \<mapsto> Dir), writable := (writable w)(name := True)\<rparr>)
          else Inl (PermissionError name))"

text \<open>The directory part of a relative path: the text before its last slash.\<close>

definition dirname :: "string \<Rightarrow> string" where
  "dirname p =
     (let d = rev (drop 1 (dropWhile (\<lambda>c. c \<noteq> CHR ''/'') (rev p)))
      in if d = [] then ''.'' else d)"

text \<open>
  Opening \<open>p\<close> with mode \<^verbatim>\<open>'wb'\<close>, writing \<open>bytes\<close> and closing: the file is created or
  truncated in place; no directory is ever created.
\<close>

definition write_file :: "string \<Rightarrow> string \<Rightarrow> world \<Rightarrow> exn + world" where
  "write_file p bytes w =
     (case fs w (dirname p) of
        None \<Rightarrow> Inl (FileNotFoundError p)
      | Some (File _) \<Rightarrow> Inl (NotADirectoryError p)
      | Some Dir \<Rightarrow>
          (case fs w p of
             Some Dir \<Rightarrow> Inl (IsADirectoryError p)
           | Some (File _) \<Rightarrow>
               if writable w p then Inr (w\<lparr>fs := (fs w)(p \<mapsto> File bytes)\<rparr>)
               else Inl (PermissionError p)
           | None \<Rightarrow>
               if writable w (dirname p)
               then Inr (w\<lparr>fs := (fs w)(p \<mapsto> File bytes),
                           writable := (writable w)(p := True)\<rparr>)
               else Inl (PermissionError p)))"

section \<open>The document model handed to the rendering library\<close>

datatype alignment = TA_LEFT | TA_CENTER

datatype color = black | lightgrey | white | blue

datatype pagesize = A4 | letter

record paragraph_style =
  style_name :: string
  parent :: string
  fontSize :: nat
  spaceAfter :: nat
  alignment :: alignment
  textColor :: "color option"
  firstLineIndent :: "nat option"
  fontWeight :: "string option"

datatype cmd_arg = Col color | Str string | Num rat

type_synonym style_cmd = "string \<times> (int \<times> int) \<times> (int \<times> int) \<times> cmd_arg list"

datatype flowable =
    Paragraph string paragraph_style
  | Spacer nat nat
  | Table "string list list" "rat list" "style_cmd list"

record doc_template =
  filename :: string
  page :: pagesize

text \<open>
  The rendering library is a parameter: given the template and the story it either
  raises or yields the bytes of the PDF. \<^verbatim>\<open>doc.build(story)\<close> lays the story out and
  then saves the result under the template's file name.
\<close>

type_synonym renderer = "doc_template \<Rightarrow> flowable list \<Rightarrow> exn + string"

definition doc_build :: "renderer \<Rightarrow> doc_template \<Rightarrow> flowable list \<Rightarrow> world \<Rightarrow> exn + world" where
  "doc_build render doc story w =
     (case render doc story of
        Inl e \<Rightarrow> Inl e
      | Inr bytes \<Rightarrow> write_file (filename doc) bytes w)"

definition inch :: rat where
  "inch = 72"

section \<open>Formatting the policy date\<close>

text \<open>
  \<^verbatim>\<open>datetime.now().strftime('%B %d, %Y')\<close>: the full English month name, the day
  of the month padded to two digits, a comma, and the year in decimal.
\<close>

fun month_name :: "month \<Rightarrow> string" where
  "month_name January = ''January''"
| "month_name February = ''February''"
| "month_name March = ''March''"
| "month_name April = ''April''"
| "month_name May = ''May''"
| "month_name June = ''June''"
| "month_name July = ''July''"
| "month_name August = ''August''"
| "month_name September = ''September''"
| "month_name October = ''October''"
| "month_name November = ''November''"
| "month_name December = ''December''"

definition digit :: "nat \<Rightarrow> char" where
  "digit n = ''0123456789'' ! (n mod 10)"

fun dec :: "nat \<Rightarrow> string" where
  "dec n = (if n < 10 then [digit n] else dec (n div 10) @ [digit n])"

declare dec.simps [simp del]

definition strftime_B_d_Y :: "date \<Rightarrow> string" where
  "strftime_B_d_Y d =
     month_name (month d) @ '' '' @ [digit (day d div 10), digit (day d)] @ '', '' @ dec (year d)"

section \<open>The three builders\<close>

text \<open>
  Each builder assembles its story (the list of flowables, in the order of the
  \<^verbatim>\<open>story.append\<close> calls), has the library render it into its file, and prints one line.
  Styles take their parent from the library's sample style sheet, recorded by name; the
  styles a builder defines and never uses (\<^verbatim>\<open>title_style\<close> of the policy, \<^verbatim>\<open>label_style\<close> of
  the ID card) have no effect and are left out.
\<close>

subsection \<open>Life insurance policy\<close>

definition life_header_style :: paragraph_style where
  "life_header_style = \<lparr>style_name = ''Header'', parent = ''Heading2'', fontSize = 16,
     spaceAfter = 12, alignment = TA_CENTER, textColor = None, firstLineIndent = None,
     fontWeight = None\<rparr>"

definition life_normal_style :: paragraph_style where
  "life_normal_style = \<lparr>style_name = ''Normal'', parent = ''Normal'', fontSize = 11,
     spaceAfter = 6, alignment = TA_LEFT, textColor = None, firstLineIndent = None,
     fontWeight = None\<rparr>"

definition watermark_style :: paragraph_style where
  "watermark_style = \<lparr>style_name = ''Watermark'', parent = ''Normal'', fontSize = 36,
     spaceAfter = 0, alignment = TA_CENTER, textColor = Some lightgrey,
     firstLineIndent = None, fontWeight = None\<rparr>"

definition policy_data :: "date \<Rightarrow> string list list" where
  "policy_data now =
     [[''<b>Policy Holder:</b>'', ''John Robert Smith''],
      [''<b>Policy Number:</b>'', ''LH-99887766''],
      [''<b>Benefit Amount:</b>'', ''$500,000.00''],
      [''<b>Primary Beneficiary:</b>'', ''Sarah Smith-Jones''],
      [''<b>Policy Date:</b>'', strftime_B_d_Y now],
      [''<b>Policy Type:</b>'', ''Whole Life Insurance''],
      [''<b>Monthly Premium:</b>'', ''$275.00''],
      [''<b>Cash Value:</b>'', ''$45,230.50'']]"

definition policy_table_style :: "style_cmd list" where
  "policy_table_style =
     [(''BACKGROUND'', (0, 0), (-1, 0), [Col lightgrey]),
      (''TEXTCOLOR'', (0, 0), (-1, -1), [Col black]),
      (''ALIGN'', (0, 0), (-1, -1), [Str ''CENTER'']),
      (''FONTNAME'', (0, 0), (-1, -1), [Str ''Helvetica'']),
      (''FONTSIZE'', (0, 0), (-1, -1), [Num 11]),
      (''BOTTOMPADDING'', (0, 0), (-1, 0), [Num 12]),
      (''BACKGROUND'', (0, 1), (-1, -1), [Col white]),
      (''GRID'', (0, 0), (-1, -1), [Num 1, Col black])]"

definition terms_text :: string where
  "terms_text =
     [CHR 0x0A] @
     ''    This policy is a permanent life insurance policy providing coverage for the entire lifetime of the insured person.'' @ [CHR 0x0A] @
     ''    The policy includes a death benefit of $500,000.00 payable to the named primary beneficiary, Sarah Smith-Jones.'' @ [CHR 0x0A] @
     [CHR 0x0A] @
     ''    Premiums are due on the 1st of each month and can be paid through various methods including electronic funds transfer,'' @ [CHR 0x0A] @
     ''    credit card, or automatic withdrawal from a bank account.'' @ [CHR 0x0A] @
     [CHR 0x0A] @
     ''    The policy accumulates cash value over time, which can be borrowed against or surrendered if needed.'' @ [CHR 0x0A] @
     ''    For more information about policy benefits and terms, please contact our customer service department.'' @ [CHR 0x0A] @
     ''    ''"

definition life_insurance_story :: "date \<Rightarrow> flowable list" where
  "life_insurance_story now =
     [Paragraph ''Legacy Life & Casualty'' life_header_style,
      Paragraph ''Permanent Life Policy'' life_header_style,
      Spacer 1 20,
      Table (policy_data now) [2 * inch, 3 * inch] policy_table_style,
      Spacer 1 30,
      Paragraph ''<b>Policy Terms and Conditions:</b>'' life_header_style,
      Paragraph terms_text life_normal_style,
      Spacer 1 30,
      Paragraph ''Watermark: TEST DOCUMENT'' watermark_style]"

definition create_life_insurance_policy :: "renderer \<Rightarrow> world \<Rightarrow> exn + world" where
  "create_life_insurance_policy render w =
     (let filename = ''documents/Life_Insurance_Policy.pdf'';
          doc = \<lparr>filename = filename, page = A4\<rparr>;
          story = life_insurance_story (today w)
      in case doc_build render doc story w of
           Inl e \<Rightarrow> Inl e
         | Inr w' \<Rightarrow> Inr (print (''Created: '' @ filename) w'))"

subsection \<open>Last will and testament\<close>

definition will_title_style :: paragraph_style where
  "will_title_style = \<lparr>style_name = ''WillTitle'', parent = ''Heading1'', fontSize = 28,
     spaceAfter = 20, alignment = TA_CENTER, textColor = Some black,
     firstLineIndent = None, fontWeight = None\<rparr>"

definition will_normal_style :: paragraph_style where
  "will_normal_style = \<lparr>style_name = ''WillNormal'', parent = ''Normal'', fontSize = 12,
     spaceAfter = 8, alignment = TA_LEFT, textColor = None, firstLineIndent = Some 20,
     fontWeight = None\<rparr>"

definition clause_style :: paragraph_style where
  "clause_style = \<lparr>style_name = ''ClauseStyle'', parent = ''Normal'', fontSize = 12,
     spaceAfter = 12, alignment = TA_LEFT, textColor = None, firstLineIndent = Some 20,
     fontWeight = None\<rparr>"

definition signature_lines :: "string list" where
  "signature_lines =
     [''_______________________________________'',
      ''John Robert Smith'',
      ''Testator'',
      [],
      ''Date: _______________'',
      [],
      ''_______________________________________'',
      ''Sarah Smith-Jones'',
      ''Witness'',
      [],
      ''Date: _______________'',
      [],
      ''_______________________________________'',
      ''Notary Public'',
      ''My Commission Expires: _______________'']"

definition will_story :: "flowable list" where
  "will_story =
     [Paragraph ''LAST WILL AND TESTAMENT'' will_title_style,
      Paragraph ''OF JOHN ROBERT SMITH'' will_title_style,
      Spacer 1 30,
      Paragraph ''<b>EXECUTOR:</b>'' will_normal_style,
      Paragraph ''I hereby appoint my daughter, Sarah Smith-Jones, as the Executor of this Will.'' will_normal_style,
      Spacer 1 20,
      Paragraph ''<b>CLAUSE 1: REAL PROPERTY</b>'' will_normal_style,
      Paragraph ''I give, devise, and bequeath all my real property located at 123 Compassion Way, Anytown, ST 12345, to my daughter, Sarah Smith-Jones, absolutely and without conditions.'' clause_style,
      Spacer 1 15,
      Paragraph ''<b>CLAUSE 2: PERSONAL PROPERTY</b>'' will_normal_style,
      Paragraph ''I give, devise, and bequeath all my personal property, including but not limited to furniture, clothing, jewelry, and household items, to my daughter, Sarah Smith-Jones.'' clause_style,
      Spacer 1 15,
      Paragraph ''<b>CLAUSE 3: FINANCIAL ASSETS</b>'' will_normal_style,
      Paragraph ''I give, devise, and bequeath all my financial assets, including bank accounts, investments, and retirement accounts, to be divided equally among my children.'' clause_style,
      Spacer 1 15,
      Paragraph ''<b>CLAUSE 4: FUNERAL ARRANGEMENTS</b>'' will_normal_style,
      Paragraph ''It is my wish that my remains be cremated and that my ashes be scattered in the Pacific Ocean at a location to be determined by my Executor.'' clause_style,
      Spacer 1 30,
      Paragraph ''<b>SIGNATURE</b>'' will_normal_style]
     @ map (\<lambda>line. Paragraph line will_normal_style) signature_lines"

definition create_will_and_testament :: "renderer \<Rightarrow> world \<Rightarrow> exn + world" where
  "create_will_and_testament render w =
     (let filename = ''documents/Last_Will_and_Testament.pdf'';
          doc = \<lparr>filename = filename, page = A4\<rparr>;
          story = will_story
      in case doc_build render doc story w of
           Inl e \<Rightarrow> Inl e
         | Inr w' \<Rightarrow> Inr (print (''Created: '' @ filename) w'))"

subsection \<open>State ID card\<close>

definition id_header_style :: paragraph_style where
  "id_header_style = \<lparr>style_name = ''IDHeader'', parent = ''Heading1'', fontSize = 20,
     spaceAfter = 10, alignment = TA_CENTER, textColor = Some black,
     firstLineIndent = None, fontWeight = None\<rparr>"

definition value_style :: paragraph_style where
  "value_style = \<lparr>style_name = ''IDValue'', parent = ''Normal'', fontSize = 12,
     spaceAfter = 8, alignment = TA_LEFT, textColor = None, firstLineIndent = None,
     fontWeight = Some ''bold''\<rparr>"

definition security_style :: paragraph_style where
  "security_style = \<lparr>style_name = ''Security'', parent = ''Normal'', fontSize = 9,
     spaceAfter = 4, alignment = TA_CENTER, textColor = Some lightgrey,
     firstLineIndent = None, fontWeight = None\<rparr>"

definition id_data :: "string list list" where
  "id_data =
     [[''<b>CLASS:</b>'', ''C'', ''<b>RESTRICTIONS:</b>'', ''None''],
      [''<b>SEX:</b>'', ''Male'', ''<b>HEIGHT:</b>'', ''5'' @ [CHR 0x27] @ ''10'' @ [CHR 0x22]],
      [''<b>EYES:</b>'', ''Blue'', ''<b>WEIGHT:</b>'', ''185 lbs''],
      [''<b>HAIR:</b>'', ''Brown'', ''<b>ORGAN DONOR:</b>'', ''YES''],
      [''<b>NAME:</b>'', ''John R. Smith'', []],
      [''<b>DOB:</b>'', ''05/12/1955'', []],
      [''<b>ADDRESS:</b>'', ''123 Compassion Way'', []],
      [[], ''Anytown, ST 12345'', []],
      [''<b>ISSUE DATE:</b>'', ''01/10/2020'', ''<b>EXPIRES:</b>'', ''01/10/2025'']]"

definition id_table_style :: "style_cmd list" where
  "id_table_style =
     [(''BACKGROUND'', (0, 0), (-1, 0), [Col lightgrey]),
      (''TEXTCOLOR'', (0, 0), (-1, -1), [Col black]),
      (''ALIGN'', (0, 0), (-1, -1), [Str ''LEFT'']),
      (''FONTNAME'', (0, 0), (-1, -1), [Str ''Helvetica'']),
      (''FONTSIZE'', (0, 0), (-1, -1), [Num 11]),
      (''BOTTOMPADDING'', (0, 0), (-1, 0), [Num 5]),
      (''BACKGROUND'', (0, 1), (-1, -1), [Col white]),
      (''GRID'', (0, 0), (-1, -1), [Num (1 / 2), Col black])]"

definition state_id_story :: "flowable list" where
  "state_id_story =
     [Paragraph ''State of Example'' id_header_style,
      Paragraph ''Driver License'' id_header_style,
      Spacer 1 20,
      Table id_data [3 / 2 * inch, 3 / 2 * inch, 3 / 2 * inch, 3 / 2 * inch] id_table_style,
      Spacer 1 20,
      Paragraph ''<b>DOCUMENT NUMBER:</b> EX-1987654321'' value_style,
      Paragraph ''<b>ISSUING AUTHORITY:</b> State of Example Department of Motor Vehicles'' value_style,
      Spacer 1 30,
      Paragraph ''This document contains security features to prevent counterfeiting.'' security_style,
      Paragraph ''Unauthorized reproduction is a criminal offense.'' security_style]"

definition create_state_id :: "renderer \<Rightarrow> world \<Rightarrow> exn + world" where
  "create_state_id render w =
     (let filename = ''documents/State_ID_Card.pdf'';
          doc = \<lparr>filename = filename, page = A4\<rparr>;
          story = state_id_story
      in case doc_build render doc story w of
           Inl e \<Rightarrow> Inl e
         | Inr w' \<Rightarrow> Inr (print (''Created: '' @ filename) w'))"

section \<open>The script\<close>

text \<open>
  The body of the \<^verbatim>\<open>try\<close> block. The builders run in sequence on the world the previous
  one left; the first exception ends the block, and the world it is raised in is returned
  with it.
\<close>

definition try_body :: "renderer \<Rightarrow> world \<Rightarrow> exn option \<times> world" where
  "try_body render w0 =
     (case create_life_insurance_policy render w0 of
        Inl e \<Rightarrow> (Some e, w0)
      | Inr w1 \<Rightarrow>
          (case create_will_and_testament render w1 of
             Inl e \<Rightarrow> (Some e, w1)
           | Inr w2 \<Rightarrow>
               (case create_state_id render w2 of
                  Inl e \<Rightarrow> (Some e, w2)
                | Inr w3 \<Rightarrow>
                    (None,
                     os_system ''ls -la documents/''
                       (print ''Documents directory:''
                         (print ([CHR 0x0A] @ ''Documents created successfully!'') w3))))))"

text \<open>The \<^verbatim>\<open>except Exception as e\<close> clause.\<close>

definition handler :: "exn \<Rightarrow> world \<Rightarrow> world" where
  "handler e w =
     print ''Please ensure ReportLab is installed: pip install reportlab''
       (print (''Error creating documents: '' @ str_exn e) w)"

text \<open>
  How the process ends: the interpreter reaches the end of the script, or an exception
  nobody caught ends it with a traceback.
\<close>

datatype outcome = Finished | Uncaught exn

fun exit_status :: "outcome \<Rightarrow> nat" where
  "exit_status Finished = 0"
| "exit_status (Uncaught KeyboardInterrupt) = 130"
| "exit_status (Uncaught _) = 1"

text \<open>The block under \<^verbatim>\<open>if __name__ == "__main__"\<close>.\<close>

definition main :: "renderer \<Rightarrow> world \<Rightarrow> outcome \<times> world" where
  "main render w =
     (let w0 = print ''Creating mock documents for Lighthouse Smart Vault...'' w
      in case try_body render w0 of
           (None, w') \<Rightarrow> (Finished, w')
         | (Some e, w') \<Rightarrow>
             if is_Exception e then (Finished, handler e w') else (Uncaught e, w'))"

text \<open>
  Running the file as a script: the imports, the module-level \<^verbatim>\<open>os.makedirs\<close>, the
  function definitions (which have no effect), then the main block.
\<close>

definition script :: "renderer \<Rightarrow> world \<Rightarrow> outcome \<times> world" where
  "script render w =
     (if \<not> reportlab_installed w then (Uncaught (ModuleNotFoundError ''reportlab''), w)
      else case os_makedirs ''documents'' w of
             Inl e \<Rightarrow> (Uncaught e, w)
           | Inr w' \<Rightarrow> main render w')"


section \<open>Names for the fixed literals\<close>

abbreviation banner :: string where
  "banner \<equiv> ''Creating mock documents for Lighthouse Smart Vault...''"

abbreviation life_path :: string where
  "life_path \<equiv> ''documents/Life_Insurance_Policy.pdf''"

abbreviation will_path :: string where
  "will_path \<equiv> ''documents/Last_Will_and_Testament.pdf''"

abbreviation id_path :: string where
  "id_path \<equiv> ''documents/State_ID_Card.pdf''"

abbreviation life_doc :: doc_template where
  "life_doc \<equiv> \<lparr>filename = life_path, page = A4\<rparr>"

abbreviation will_doc :: doc_template where
  "will_doc \<equiv> \<lparr>filename = will_path, page = A4\<rparr>"

abbreviation id_doc :: doc_template where
  "id_doc \<equiv> \<lparr>filename = id_path, page = A4\<rparr>"

text \<open>When opening \<open>p\<close> for writing succeeds.\<close>

definition can_write :: "world \<Rightarrow> string \<Rightarrow> bool" where
  "can_write w p =
     (fs w (dirname p) = Some Dir \<and>
      (case fs w p of
         None \<Rightarrow> writable w (dirname p)
       | Some Dir \<Rightarrow> False
       | Some (File _) \<Rightarrow> writable w p))"

section \<open>Sample environments\<close>

text \<open>
  Concrete renderers and worlds on which the theorems below are exercised: a renderer
  that emits a PDF header followed by the text of the story, one that yields no bytes at
  all, one that raises on chosen documents, a world with an empty writable \<^verbatim>\<open>documents/\<close>, one without the directory,
  and one where the name \<^verbatim>\<open>documents\<close> is taken by a regular file. \<open>wrote p b w\<close> is the
  world after a builder has created the file \<open>p\<close> with content \<open>b\<close> and printed its line.
\<close>

fun flowable_text :: "flowable \<Rightarrow> string" where
  "flowable_text (Paragraph t _) = t"
| "flowable_text (Spacer _ _) = []"
| "flowable_text (Table rows _ _) = concat (concat rows)"

definition sample_pdf :: "flowable list \<Rightarrow> string" where
  "sample_pdf story = ''%PDF-1.4'' @ concat (map flowable_text story)"

definition sample_render :: renderer where
  "sample_render doc story = Inr (sample_pdf story)"


definition failing_render :: "string list \<Rightarrow> renderer" where
  "failing_render bad doc story =
     (if filename doc \<in> set bad then Inl (LayoutError ''Flowable too large on page 1'')
      else sample_render doc story)"

definition wrote :: "string \<Rightarrow> string \<Rightarrow> world \<Rightarrow> world" where
  "wrote p b w =
     print (''Created: '' @ p)
       (w\<lparr>fs := (fs w)(p \<mapsto> File b), writable := (writable w)(p := True)\<rparr>)"

definition sample_date :: date where
  "sample_date = \<lparr>year = 2026, month = November, day = 3\<rparr>"

definition later_date :: date where
  "later_date = \<lparr>year = 2026, month = December, day = 25\<rparr>"

definition fresh_world :: world where
  "fresh_world = \<lparr>fs = Map.empty, writable = (\<lambda>p. p = ''.''), stdout = [], spawned = [],
     today = sample_date, reportlab_installed = True\<rparr>"

definition docs_world :: world where
  "docs_world = fresh_world\<lparr>fs := [''documents'' \<mapsto> Dir],
     writable := (\<lambda>p. p = ''.'' \<or> p = ''documents'')\<rparr>"

definition blocked_world :: world where
  "blocked_world = fresh_world\<lparr>fs := [''documents'' \<mapsto> File ''not a directory'']\<rparr>"

section \<open>Basic facts\<close>

lemma dirname_paths [simp]:
  "dirname life_path = ''documents''"
  "dirname will_path = ''documents''"
  "dirname id_path = ''documents''"
  by (simp_all add: dirname_def)

lemma write_file_Inr_iff:
  "write_file p b w = Inr w' \<longleftrightarrow>
     can_write w p \<and>
     w' = w\<lparr>fs := (fs w)(p \<mapsto> File b),
            writable := (if fs w p = None then (writable w)(p := True) else writable w)\<rparr>"
  by (auto simp: write_file_def can_write_def split: option.splits node.splits)

lemma write_file_Inl_iff:
  "(\<exists>e. write_file p b w = Inl e) \<longleftrightarrow> \<not> can_write w p"
  by (auto simp: write_file_def can_write_def split: option.splits node.splits)

lemma doc_build_Inr_iff:
  "doc_build r d s w = Inr w' \<longleftrightarrow>
     (\<exists>b. r d s = Inr b \<and> write_file (filename d) b w = Inr w')"
  by (auto simp: doc_build_def split: sum.splits)

lemma create_life_Inr_iff:
  "create_life_insurance_policy r w = Inr w' \<longleftrightarrow>
     (\<exists>b v. r life_doc (life_insurance_story (today w)) = Inr b \<and>
        write_file life_path b w = Inr v \<and> w' = print (''Created: '' @ life_path) v)"
  by (auto simp: create_life_insurance_policy_def doc_build_def Let_def split: sum.splits)

lemma create_will_Inr_iff:
  "create_will_and_testament r w = Inr w' \<longleftrightarrow>
     (\<exists>b v. r will_doc will_story = Inr b \<and>
        write_file will_path b w = Inr v \<and> w' = print (''Created: '' @ will_path) v)"
  by (auto simp: create_will_and_testament_def doc_build_def Let_def split: sum.splits)

lemma create_id_Inr_iff:
  "create_state_id r w = Inr w' \<longleftrightarrow>
     (\<exists>b v. r id_doc state_id_story = Inr b \<and>
        write_file id_path b w = Inr v \<and> w' = print (''Created: '' @ id_path) v)"
  by (auto simp: create_state_id_def doc_build_def Let_def split: sum.splits)

lemma print_fields [simp]:
  "fs (print l w) = fs w" "writable (print l w) = writable w"
  "stdout (print l w) = stdout w @ [l]" "spawned (print l w) = spawned w"
  "today (print l w) = today w" "reportlab_installed (print l w) = reportlab_installed w"
  by (simp_all add: print_def)

lemma os_system_fields [simp]:
  "fs (os_system c w) = fs w" "writable (os_system c w) = writable w"
  "stdout (os_system c w) = stdout w" "spawned (os_system c w) = spawned w @ [c]"
  "today (os_system c w) = today w" "reportlab_installed (os_system c w) = reportlab_installed w"
  by (simp_all add: os_system_def)

lemma handler_fields [simp]:
  "fs (handler e w) = fs w" "writable (handler e w) = writable w"
  "stdout (handler e w) = stdout w @ [''Error creating documents: '' @ str_exn e,
      ''Please ensure ReportLab is installed: pip install reportlab'']"
  "spawned (handler e w) = spawned w"
  "today (handler e w) = today w"
  by (simp_all add: handler_def)

lemma wrote_fields [simp]:
  "fs (wrote p b w) = (fs w)(p \<mapsto> File b)"
  "writable (wrote p b w) = (writable w)(p := True)"
  "stdout (wrote p b w) = stdout w @ [''Created: '' @ p]"
  "spawned (wrote p b w) = spawned w"
  "today (wrote p b w) = today w"
  "reportlab_installed (wrote p b w) = reportlab_installed w"
  by (simp_all add: wrote_def)

lemma docs_world_fields [simp]:
  "fs docs_world = [''documents'' \<mapsto> Dir]"
  "writable docs_world = (\<lambda>p. p = ''.'' \<or> p = ''documents'')"
  "stdout docs_world = []"
  "spawned docs_world = []"
  "today docs_world = sample_date"
  "reportlab_installed docs_world"
  by (simp_all add: docs_world_def fresh_world_def)

lemma fresh_world_fields [simp]:
  "fs fresh_world = Map.empty"
  "writable fresh_world = (\<lambda>p. p = ''.'')"
  "stdout fresh_world = []"
  "spawned fresh_world = []"
  "today fresh_world = sample_date"
  "reportlab_installed fresh_world"
  by (simp_all add: fresh_world_def)

subsection \<open>What a builder changes\<close>

lemma create_life_frame:
  "create_life_insurance_policy r w = Inr w' \<Longrightarrow>
     spawned w' = spawned w \<and> today w' = today w \<and>
     reportlab_installed w' = reportlab_installed w \<and>
     stdout w' = stdout w @ [''Created: '' @ life_path] \<and>
     (\<exists>b. r life_doc (life_insurance_story (today w)) = Inr b \<and>
          fs w' = (fs w)(life_path \<mapsto> File b))"
  by (auto simp: create_life_Inr_iff write_file_Inr_iff)

lemma create_will_frame:
  "create_will_and_testament r w = Inr w' \<Longrightarrow>
     spawned w' = spawned w \<and> today w' = today w \<and>
     reportlab_installed w' = reportlab_installed w \<and>
     stdout w' = stdout w @ [''Created: '' @ will_path] \<and>
     (\<exists>b. r will_doc will_story = Inr b \<and> fs w' = (fs w)(will_path \<mapsto> File b))"
  by (auto simp: create_will_Inr_iff write_file_Inr_iff)

lemma create_id_frame:
  "create_state_id r w = Inr w' \<Longrightarrow>
     spawned w' = spawned w \<and> today w' = today w \<and>
     reportlab_installed w' = reportlab_installed w \<and>
     stdout w' = stdout w @ [''Created: '' @ id_path] \<and>
     (\<exists>b. r id_doc state_id_story = Inr b \<and> fs w' = (fs w)(id_path \<mapsto> File b))"
  by (auto simp: create_id_Inr_iff write_file_Inr_iff)

lemma try_body_Some_iff:
  "try_body r w0 = (Some e, wr) \<longleftrightarrow>
     (create_life_insurance_policy r w0 = Inl e \<and> wr = w0) \<or>
     (\<exists>w1. create_life_insurance_policy r w0 = Inr w1 \<and>
        create_will_and_testament r w1 = Inl e \<and> wr = w1) \<or>
     (\<exists>w1 w2. create_life_insurance_policy r w0 = Inr w1 \<and>
        create_will_and_testament r w1 = Inr w2 \<and> create_state_id r w2 = Inl e \<and> wr = w2)"
  by (auto simp: try_body_def split: sum.splits)

lemma try_body_None_iff:
  "try_body r w0 = (None, wr) \<longleftrightarrow>
     (\<exists>w1 w2 w3. create_life_insurance_policy r w0 = Inr w1 \<and>
        create_will_and_testament r w1 = Inr w2 \<and> create_state_id r w2 = Inr w3 \<and>
        wr = os_system ''ls -la documents/''
               (print ''Documents directory:''
                 (print ([CHR 0x0A] @ ''Documents created successfully!'') w3)))"
  by (auto simp: try_body_def split: sum.splits)

lemma try_body_Some_spawned:
  "try_body r w0 = (Some e, wr) \<Longrightarrow> spawned wr = spawned w0"
  by (auto simp: try_body_Some_iff dest!: create_life_frame create_will_frame create_id_frame)



lemma create_id_renderer:
  "r' id_doc state_id_story = r id_doc state_id_story \<Longrightarrow>
   create_state_id r' w = create_state_id r w"
  by (simp add: create_state_id_def doc_build_def Let_def)

subsection \<open>The sample renderers\<close>

lemma sample_render_conv: "sample_render = failing_render []"
  by (simp add: fun_eq_iff failing_render_def)

lemma sample_life_fails:
  "life_path \<in> set bad \<Longrightarrow>
   create_life_insurance_policy (failing_render bad) w =
     Inl (LayoutError ''Flowable too large on page 1'')"
  by (simp add: create_life_insurance_policy_def doc_build_def failing_render_def Let_def)

lemma sample_will_fails:
  "will_path \<in> set bad \<Longrightarrow>
   create_will_and_testament (failing_render bad) w =
     Inl (LayoutError ''Flowable too large on page 1'')"
  by (simp add: create_will_and_testament_def doc_build_def failing_render_def Let_def)

lemma sample_id_fails:
  "id_path \<in> set bad \<Longrightarrow>
   create_state_id (failing_render bad) w =
     Inl (LayoutError ''Flowable too large on page 1'')"
  by (simp add: create_state_id_def doc_build_def failing_render_def Let_def)

lemma sample_life_ok:
  "life_path \<notin> set bad \<Longrightarrow> fs w ''documents'' = Some Dir \<Longrightarrow> writable w ''documents'' \<Longrightarrow>
   fs w life_path = None \<Longrightarrow>
   create_life_insurance_policy (failing_render bad) w =
     Inr (wrote life_path (sample_pdf (life_insurance_story (today w))) w)"
  by (simp add: create_life_insurance_policy_def doc_build_def failing_render_def Let_def
      sample_render_def write_file_def wrote_def)

lemma sample_will_ok:
  "will_path \<notin> set bad \<Longrightarrow> fs w ''documents'' = Some Dir \<Longrightarrow> writable w ''documents'' \<Longrightarrow>
   fs w will_path = None \<Longrightarrow>
   create_will_and_testament (failing_render bad) w =
     Inr (wrote will_path (sample_pdf will_story) w)"
  by (simp add: create_will_and_testament_def doc_build_def failing_render_def Let_def
      sample_render_def write_file_def wrote_def)

lemma sample_id_ok:
  "id_path \<notin> set bad \<Longrightarrow> fs w ''documents'' = Some Dir \<Longrightarrow> writable w ''documents'' \<Longrightarrow>
   fs w id_path = None \<Longrightarrow>
   create_state_id (failing_render bad) w =
     Inr (wrote id_path (sample_pdf state_id_story) w)"
  by (simp add: create_state_id_def doc_build_def failing_render_def Let_def
      sample_render_def write_file_def wrote_def)

section \<open>Failure handling\<close>

text \<open>
  Claim C1, as amended. The claim says that a failing build ends the process with a
  non-zero exit status. The script has no \<^verbatim>\<open>sys.exit\<close> and does not re-raise: when one of
  the three builds raises an exception derived from \<^verbatim>\<open>Exception\<close>, the handler prints
  the error line and the installation hint after whatever was printed before, and the
  interpreter then reaches the end of the script, so the exit status is 0.
\<close>

theorem handled_build_failure_exits_zero:
  assumes "reportlab_installed w"
    and "os_makedirs ''documents'' w = Inr w1"
    and "try_body render (print banner w1) = (Some e, wr)"
    and "is_Exception e"
  shows "fst (script render w) = Finished \<and> exit_status (fst (script render w)) = 0 \<and>
     stdout (snd (script render w)) =
       stdout wr @ [''Error creating documents: '' @ str_exn e,
                    ''Please ensure ReportLab is installed: pip install reportlab'']"
  using assms by (simp add: script_def main_def Let_def)

text \<open>
  The claim as stated fails: with a renderer that raises on the life insurance policy,
  the first build raises, and the script still exits with status 0.
\<close>

theorem build_failure_nonzero_exit_counterexample:
  "create_life_insurance_policy (failing_render [life_path]) (print banner docs_world)
     = Inl (LayoutError ''Flowable too large on page 1'') \<and>
   exit_status (fst (script (failing_render [life_path]) docs_world)) = 0"
  by (simp add: sample_life_fails script_def main_def try_body_def Let_def os_makedirs_def)

theorem handled_build_failure_exits_zero_witness:
  "reportlab_installed docs_world \<and>
   os_makedirs ''documents'' docs_world = Inr docs_world \<and>
   try_body (failing_render [life_path]) (print banner docs_world)
     = (Some (LayoutError ''Flowable too large on page 1''), print banner docs_world) \<and>
   is_Exception (LayoutError ''Flowable too large on page 1'') \<and>
   fst (script (failing_render [life_path]) docs_world) = Finished \<and>
   exit_status (fst (script (failing_render [life_path]) docs_world)) = 0 \<and>
   stdout (snd (script (failing_render [life_path]) docs_world)) =
     [banner, ''Error creating documents: Flowable too large on page 1'',
      ''Please ensure ReportLab is installed: pip install reportlab'']"
proof -
  have a: "reportlab_installed docs_world" by simp
  have b: "os_makedirs ''documents'' docs_world = Inr docs_world"
    by (simp add: os_makedirs_def)
  have c: "try_body (failing_render [life_path]) (print banner docs_world)
     = (Some (LayoutError ''Flowable too large on page 1''), print banner docs_world)"
    by (simp add: try_body_def sample_life_fails)
  have d: "is_Exception (LayoutError ''Flowable too large on page 1'')" by simp
  from handled_build_failure_exits_zero [OF a b c d] a b c d show ?thesis
    by simp
qed

text \<open>
  Claim C2, as amended. Not every exception of a run reaches the handler: the imports
  and \<^verbatim>\<open>os.makedirs\<close> run before the \<^verbatim>\<open>try\<close> statement, and \<^verbatim>\<open>except Exception\<close> lets
  exceptions outside the \<^verbatim>\<open>Exception\<close> hierarchy pass. What holds is this: an exception
  derived from \<^verbatim>\<open>Exception\<close> that is raised inside the \<^verbatim>\<open>try\<close> block is caught by the one
  handler, which prints the error line with the exception's text and the installation
  hint, once each, after the output so far; the run then ends. The handler touches no
  file and lists nothing, whichever build failed.
\<close>

theorem exception_in_try_caught_once:
  assumes "try_body render (print banner w) = (Some e, wr)"
    and "is_Exception e"
  shows "main render w = (Finished, handler e wr) \<and>
     stdout (snd (main render w)) =
       stdout wr @ [''Error creating documents: '' @ str_exn e,
                    ''Please ensure ReportLab is installed: pip install reportlab''] \<and>
     fs (snd (main render w)) = fs wr \<and>
     spawned (snd (main render w)) = spawned w"
proof -
  have m: "main render w = (Finished, handler e wr)"
    using assms by (simp add: main_def Let_def)
  have "spawned wr = spawned (print banner w)"
    using assms(1) by (rule try_body_Some_spawned)
  then show ?thesis using m by simp
qed

text \<open>
  The claim as stated fails: when the name \<^verbatim>\<open>documents\<close> is taken by a regular file,
  \<^verbatim>\<open>os.makedirs\<close> raises \<^verbatim>\<open>FileExistsError\<close> (an \<^verbatim>\<open>Exception\<close>) before the \<^verbatim>\<open>try\<close> statement is
  reached; nothing catches it and nothing is printed on standard output.
\<close>

theorem uncaught_makedirs_counterexample:
  "os_makedirs ''documents'' blocked_world = Inl (FileExistsError ''documents'') \<and>
   is_Exception (FileExistsError ''documents'') \<and>
   script sample_render blocked_world = (Uncaught (FileExistsError ''documents''), blocked_world) \<and>
   stdout (snd (script sample_render blocked_world)) = []"
  by (simp add: script_def os_makedirs_def blocked_world_def)

theorem exception_in_try_caught_once_witness:
  "try_body (failing_render [will_path]) (print banner docs_world) =
     (Some (LayoutError ''Flowable too large on page 1''),
      wrote life_path (sample_pdf (life_insurance_story sample_date)) (print banner docs_world)) \<and>
   is_Exception (LayoutError ''Flowable too large on page 1'') \<and>
   fst (main (failing_render [will_path]) docs_world) = Finished \<and>
   stdout (snd (main (failing_render [will_path]) docs_world)) =
     [banner, ''Created: '' @ life_path,
      ''Error creating documents: Flowable too large on page 1'',
      ''Please ensure ReportLab is installed: pip install reportlab''] \<and>
   fs (snd (main (failing_render [will_path]) docs_world)) will_path = None \<and>
   fs (snd (main (failing_render [will_path]) docs_world)) id_path = None \<and>
   spawned (snd (main (failing_render [will_path]) docs_world)) = []"
proof -
  have l: "create_life_insurance_policy (failing_render [will_path]) (print banner docs_world) =
     Inr (wrote life_path (sample_pdf (life_insurance_story sample_date)) (print banner docs_world))"
    using sample_life_ok [of "[will_path]" "print banner docs_world"] by simp
  have t: "try_body (failing_render [will_path]) (print banner docs_world) =
     (Some (LayoutError ''Flowable too large on page 1''),
      wrote life_path (sample_pdf (life_insurance_story sample_date)) (print banner docs_world))"
    by (simp add: try_body_def l sample_will_fails)
  have d: "is_Exception (LayoutError ''Flowable too large on page 1'')" by simp
  from exception_in_try_caught_once [OF t d] t d show ?thesis
    by simp
qed

section \<open>Sequencing of the builds\<close>



section \<open>What each builder writes\<close>

lemma create_life_ok:
  "can_write w life_path \<Longrightarrow> r life_doc (life_insurance_story (today w)) = Inr b \<Longrightarrow>
   \<exists>w'. create_life_insurance_policy r w = Inr w' \<and> fs w' = (fs w)(life_path \<mapsto> File b)"
  by (simp add: create_life_Inr_iff write_file_Inr_iff)

lemma create_will_ok:
  "can_write w will_path \<Longrightarrow> r will_doc will_story = Inr b \<Longrightarrow>
   \<exists>w'. create_will_and_testament r w = Inr w' \<and> fs w' = (fs w)(will_path \<mapsto> File b)"
  by (simp add: create_will_Inr_iff write_file_Inr_iff)

lemma create_id_ok:
  "can_write w id_path \<Longrightarrow> r id_doc state_id_story = Inr b \<Longrightarrow>
   \<exists>w'. create_state_id r w = Inr w' \<and> fs w' = (fs w)(id_path \<mapsto> File b)"
  by (simp add: create_id_Inr_iff write_file_Inr_iff)

text \<open>
  Claim C4. Each builder is a function of the renderer and the world alone, and its
  normal result is the new world and nothing else. Where its target can be opened for
  writing and the renderer yields the bytes \<open>b\<close>, the builder returns normally, and the
  file system afterwards is the one before with \<open>b\<close> stored at the builder's fixed path:
  one file written, every other path as it was.
\<close>

theorem builder_writes_one_file_at_fixed_path:
  "(can_write w life_path \<and> r life_doc (life_insurance_story (today w)) = Inr b \<longrightarrow>
      (\<exists>w'. create_life_insurance_policy r w = Inr w' \<and>
            fs w' = (fs w)(''documents/Life_Insurance_Policy.pdf'' \<mapsto> File b))) \<and>
   (can_write w will_path \<and> r will_doc will_story = Inr b \<longrightarrow>
      (\<exists>w'. create_will_and_testament r w = Inr w' \<and>
            fs w' = (fs w)(''documents/Last_Will_and_Testament.pdf'' \<mapsto> File b))) \<and>
   (can_write w id_path \<and> r id_doc state_id_story = Inr b \<longrightarrow>
      (\<exists>w'. create_state_id r w = Inr w' \<and>
            fs w' = (fs w)(''documents/State_ID_Card.pdf'' \<mapsto> File b)))"
  using create_life_ok create_will_ok create_id_ok by blast

lemma can_write_docs_world:
  "can_write docs_world life_path" "can_write docs_world will_path" "can_write docs_world id_path"
  by (simp_all add: can_write_def)

theorem builder_writes_one_file_at_fixed_path_witness:
  "can_write docs_world life_path \<and>
   sample_render life_doc (life_insurance_story (today docs_world)) =
     Inr (sample_pdf (life_insurance_story sample_date)) \<and>
   (\<exists>w'. create_life_insurance_policy sample_render docs_world = Inr w' \<and>
      fs w' = (fs docs_world)(life_path \<mapsto> File (sample_pdf (life_insurance_story sample_date)))) \<and>
   can_write docs_world will_path \<and>
   sample_render will_doc will_story = Inr (sample_pdf will_story) \<and>
   (\<exists>w'. create_will_and_testament sample_render docs_world = Inr w' \<and>
      fs w' = (fs docs_world)(will_path \<mapsto> File (sample_pdf will_story))) \<and>
   can_write docs_world id_path \<and>
   sample_render id_doc state_id_story = Inr (sample_pdf state_id_story) \<and>
   (\<exists>w'. create_state_id sample_render docs_world = Inr w' \<and>
      fs w' = (fs docs_world)(id_path \<mapsto> File (sample_pdf state_id_story)))"
proof -
  have l: "sample_render life_doc (life_insurance_story (today docs_world)) =
     Inr (sample_pdf (life_insurance_story sample_date))"
    by (simp add: sample_render_def)
  have w: "sample_render will_doc will_story = Inr (sample_pdf will_story)"
    by (simp add: sample_render_def)
  have i: "sample_render id_doc state_id_story = Inr (sample_pdf state_id_story)"
    by (simp add: sample_render_def)
  show ?thesis
    using builder_writes_one_file_at_fixed_path
        [of docs_world sample_render "sample_pdf (life_insurance_story sample_date)"]
      builder_writes_one_file_at_fixed_path [of docs_world sample_render "sample_pdf will_story"]
      builder_writes_one_file_at_fixed_path [of docs_world sample_render "sample_pdf state_id_story"]
      can_write_docs_world l w i
    by blast
qed

section \<open>Isolation of the builders\<close>

lemma write_file_other_path:
  assumes "q \<noteq> p" and "q \<noteq> dirname p"
  shows "write_file p b (w\<lparr>fs := (fs w)(q := n)\<rparr>) =
     map_sum id (\<lambda>w'. w'\<lparr>fs := (fs w')(q := n)\<rparr>) (write_file p b w)"
  using assms
  by (auto simp: write_file_def fun_upd_twist split: option.splits node.splits)

lemma doc_build_other_path:
  assumes "q \<noteq> filename d" and "q \<noteq> dirname (filename d)"
  shows "doc_build r d s (w\<lparr>fs := (fs w)(q := n)\<rparr>) =
     map_sum id (\<lambda>w'. w'\<lparr>fs := (fs w')(q := n)\<rparr>) (doc_build r d s w)"
  using assms by (simp add: doc_build_def write_file_other_path split: sum.splits)

lemma print_fs_update:
  "print l (w\<lparr>fs := f\<rparr>) = (print l w)\<lparr>fs := f\<rparr>"
  by (simp add: print_def)

lemma create_life_other_path:
  assumes "q \<noteq> life_path" and "q \<noteq> ''documents''"
  shows "create_life_insurance_policy r (w\<lparr>fs := (fs w)(q := n)\<rparr>) =
     map_sum id (\<lambda>w'. w'\<lparr>fs := (fs w')(q := n)\<rparr>) (create_life_insurance_policy r w)"
  using assms
  by (simp add: create_life_insurance_policy_def Let_def doc_build_other_path print_fs_update
      split: sum.splits)

lemma create_will_other_path:
  assumes "q \<noteq> will_path" and "q \<noteq> ''documents''"
  shows "create_will_and_testament r (w\<lparr>fs := (fs w)(q := n)\<rparr>) =
     map_sum id (\<lambda>w'. w'\<lparr>fs := (fs w')(q := n)\<rparr>) (create_will_and_testament r w)"
  using assms
  by (simp add: create_will_and_testament_def Let_def doc_build_other_path print_fs_update
      split: sum.splits)

lemma create_id_other_path:
  assumes "q \<noteq> id_path" and "q \<noteq> ''documents''"
  shows "create_state_id r (w\<lparr>fs := (fs w)(q := n)\<rparr>) =
     map_sum id (\<lambda>w'. w'\<lparr>fs := (fs w')(q := n)\<rparr>) (create_state_id r w)"
  using assms
  by (simp add: create_state_id_def Let_def doc_build_other_path print_fs_update
      split: sum.splits)

text \<open>
  Claim C8. A builder that returns has changed the file system at its own path only:
  every other path, the other two documents among them, holds what it held before (a
  builder that raises changes nothing at all). And no builder looks at another's output:
  putting anything whatsoever at a path \<open>q\<close> other than the builder's own file and the
  \<^verbatim>\<open>documents\<close> directory, or removing what is there, changes neither whether the builder
  succeeds, nor the exception it raises, nor what it writes.
\<close>

theorem builders_touch_only_their_own_file:
  "(create_life_insurance_policy r w = Inr w' \<longrightarrow> (\<forall>p. p \<noteq> life_path \<longrightarrow> fs w' p = fs w p)) \<and>
   (create_will_and_testament r w = Inr w' \<longrightarrow> (\<forall>p. p \<noteq> will_path \<longrightarrow> fs w' p = fs w p)) \<and>
   (create_state_id r w = Inr w' \<longrightarrow> (\<forall>p. p \<noteq> id_path \<longrightarrow> fs w' p = fs w p)) \<and>
   (q \<noteq> life_path \<and> q \<noteq> ''documents'' \<longrightarrow>
      create_life_insurance_policy r (w\<lparr>fs := (fs w)(q := n)\<rparr>) =
        map_sum id (\<lambda>v. v\<lparr>fs := (fs v)(q := n)\<rparr>) (create_life_insurance_policy r w)) \<and>
   (q \<noteq> will_path \<and> q \<noteq> ''documents'' \<longrightarrow>
      create_will_and_testament r (w\<lparr>fs := (fs w)(q := n)\<rparr>) =
        map_sum id (\<lambda>v. v\<lparr>fs := (fs v)(q := n)\<rparr>) (create_will_and_testament r w)) \<and>
   (q \<noteq> id_path \<and> q \<noteq> ''documents'' \<longrightarrow>
      create_state_id r (w\<lparr>fs := (fs w)(q := n)\<rparr>) =
        map_sum id (\<lambda>v. v\<lparr>fs := (fs v)(q := n)\<rparr>) (create_state_id r w))"
proof (intro conjI impI allI)
  fix p assume "create_life_insurance_policy r w = Inr w'" and "p \<noteq> life_path"
  then show "fs w' p = fs w p" by (auto dest!: create_life_frame)
next
  fix p assume "create_will_and_testament r w = Inr w'" and "p \<noteq> will_path"
  then show "fs w' p = fs w p" by (auto dest!: create_will_frame)
next
  fix p assume "create_state_id r w = Inr w'" and "p \<noteq> id_path"
  then show "fs w' p = fs w p" by (auto dest!: create_id_frame)
next
  assume "q \<noteq> life_path \<and> q \<noteq> ''documents''"
  then show "create_life_insurance_policy r (w\<lparr>fs := (fs w)(q := n)\<rparr>) =
      map_sum id (\<lambda>v. v\<lparr>fs := (fs v)(q := n)\<rparr>) (create_life_insurance_policy r w)"
    by (simp add: create_life_other_path)
next
  assume "q \<noteq> will_path \<and> q \<noteq> ''documents''"
  then show "create_will_and_testament r (w\<lparr>fs := (fs w)(q := n)\<rparr>) =
      map_sum id (\<lambda>v. v\<lparr>fs := (fs v)(q := n)\<rparr>) (create_will_and_testament r w)"
    by (simp add: create_will_other_path)
next
  assume "q \<noteq> id_path \<and> q \<noteq> ''documents''"
  then show "create_state_id r (w\<lparr>fs := (fs w)(q := n)\<rparr>) =
      map_sum id (\<lambda>v. v\<lparr>fs := (fs v)(q := n)\<rparr>) (create_state_id r w)"
    by (simp add: create_id_other_path)
qed

lemma sample_builds_docs_world:
  "create_life_insurance_policy sample_render docs_world =
     Inr (wrote life_path (sample_pdf (life_insurance_story sample_date)) docs_world)"
  "create_will_and_testament sample_render docs_world =
     Inr (wrote will_path (sample_pdf will_story) docs_world)"
  "create_state_id sample_render docs_world =
     Inr (wrote id_path (sample_pdf state_id_story) docs_world)"
  using sample_life_ok [of "[]" docs_world] sample_will_ok [of "[]" docs_world]
    sample_id_ok [of "[]" docs_world]
  by (simp_all add: sample_render_conv)

theorem builders_touch_only_their_own_file_witness:
  "create_life_insurance_policy sample_render docs_world =
     Inr (wrote life_path (sample_pdf (life_insurance_story sample_date)) docs_world) \<and>
   will_path \<noteq> life_path \<and>
   fs (wrote life_path (sample_pdf (life_insurance_story sample_date)) docs_world) will_path =
     fs docs_world will_path \<and>
   create_will_and_testament sample_render docs_world =
     Inr (wrote will_path (sample_pdf will_story) docs_world) \<and>
   id_path \<noteq> will_path \<and>
   fs (wrote will_path (sample_pdf will_story) docs_world) id_path = fs docs_world id_path \<and>
   create_state_id sample_render docs_world =
     Inr (wrote id_path (sample_pdf state_id_story) docs_world) \<and>
   life_path \<noteq> id_path \<and>
   fs (wrote id_path (sample_pdf state_id_story) docs_world) life_path = fs docs_world life_path \<and>
   will_path \<noteq> ''documents'' \<and>
   create_life_insurance_policy sample_render
       (docs_world\<lparr>fs := (fs docs_world)(will_path := Some (File ''an older will''))\<rparr>) =
     map_sum id (\<lambda>v. v\<lparr>fs := (fs v)(will_path := Some (File ''an older will''))\<rparr>)
       (create_life_insurance_policy sample_render docs_world) \<and>
   will_path \<noteq> id_path \<and>
   create_state_id sample_render
       (docs_world\<lparr>fs := (fs docs_world)(will_path := Some (File ''an older will''))\<rparr>) =
     map_sum id (\<lambda>v. v\<lparr>fs := (fs v)(will_path := Some (File ''an older will''))\<rparr>)
       (create_state_id sample_render docs_world) \<and>
   life_path \<noteq> will_path \<and> life_path \<noteq> ''documents'' \<and>
   create_will_and_testament sample_render
       (docs_world\<lparr>fs := (fs docs_world)(life_path := Some (File ''an older policy''))\<rparr>) =
     map_sum id (\<lambda>v. v\<lparr>fs := (fs v)(life_path := Some (File ''an older policy''))\<rparr>)
       (create_will_and_testament sample_render docs_world)"
proof -
  let ?L = "wrote life_path (sample_pdf (life_insurance_story sample_date)) docs_world"
  let ?W = "wrote will_path (sample_pdf will_story) docs_world"
  let ?I = "wrote id_path (sample_pdf state_id_story) docs_world"
  have n1: "will_path \<noteq> life_path" by simp
  have n2: "id_path \<noteq> will_path" by simp
  have n3: "life_path \<noteq> id_path" by simp
  have n4: "will_path \<noteq> ''documents''" by simp
  have n5: "will_path \<noteq> id_path" by simp
  have n6: "life_path \<noteq> will_path" by simp
  have n7: "life_path \<noteq> ''documents''" by simp
  note s = sample_builds_docs_world
  note t = builders_touch_only_their_own_file
  note t1 = t [THEN conjunct1, rule_format]
  note t2 = t [THEN conjunct2, THEN conjunct1, rule_format]
  note t3 = t [THEN conjunct2, THEN conjunct2, THEN conjunct1, rule_format]
  note t4 = t [THEN conjunct2, THEN conjunct2, THEN conjunct2, THEN conjunct1, rule_format]
  note t5 = t [THEN conjunct2, THEN conjunct2, THEN conjunct2, THEN conjunct2, THEN conjunct1,
    rule_format]
  note t6 = t [THEN conjunct2, THEN conjunct2, THEN conjunct2, THEN conjunct2, THEN conjunct2,
    rule_format]
  have a: "fs ?L will_path = fs docs_world will_path"
    by (rule t1 [OF s(1) n1])
  have b: "fs ?W id_path = fs docs_world id_path"
    by (rule t2 [OF s(2) n2])
  have c: "fs ?I life_path = fs docs_world life_path"
    by (rule t3 [OF s(3) n3])
  have d: "create_life_insurance_policy sample_render
       (docs_world\<lparr>fs := (fs docs_world)(will_path := Some (File ''an older will''))\<rparr>) =
     map_sum id (\<lambda>v. v\<lparr>fs := (fs v)(will_path := Some (File ''an older will''))\<rparr>)
       (create_life_insurance_policy sample_render docs_world)"
    by (rule t4 [OF conjI [OF n1 n4]])
  have e: "create_state_id sample_render
       (docs_world\<lparr>fs := (fs docs_world)(will_path := Some (File ''an older will''))\<rparr>) =
     map_sum id (\<lambda>v. v\<lparr>fs := (fs v)(will_path := Some (File ''an older will''))\<rparr>)
       (create_state_id sample_render docs_world)"
    by (rule t6 [OF conjI [OF n5 n4]])
  have f: "create_will_and_testament sample_render
       (docs_world\<lparr>fs := (fs docs_world)(life_path := Some (File ''an older policy''))\<rparr>) =
     map_sum id (\<lambda>v. v\<lparr>fs := (fs v)(life_path := Some (File ''an older policy''))\<rparr>)
       (create_will_and_testament sample_render docs_world)"
    by (rule t5 [OF conjI [OF n6 n7]])
  show ?thesis
    by (intro conjI s n1 n2 n3 n4 n5 n6 n7 a b c d e f)
qed

section \<open>Running a builder again\<close>

lemma create_life_can_write_again:
  "create_life_insurance_policy r w = Inr w1 \<Longrightarrow> can_write (w1\<lparr>today := d\<rparr>) life_path"
  by (auto simp: create_life_Inr_iff write_file_Inr_iff can_write_def
      split: option.splits node.splits if_splits)

lemma create_will_can_write_again:
  "create_will_and_testament r w = Inr w1 \<Longrightarrow> can_write (w1\<lparr>today := d\<rparr>) will_path"
  by (auto simp: create_will_Inr_iff write_file_Inr_iff can_write_def
      split: option.splits node.splits if_splits)

lemma create_id_can_write_again:
  "create_state_id r w = Inr w1 \<Longrightarrow> can_write (w1\<lparr>today := d\<rparr>) id_path"
  by (auto simp: create_id_Inr_iff write_file_Inr_iff can_write_def
      split: option.splits node.splits if_splits)

lemma dom_overwrite: "m p = Some x \<Longrightarrow> dom (m(p \<mapsto> y)) = dom m"
  by auto

lemma life_rerun:
  assumes "create_life_insurance_policy r w = Inr w1"
    and "r' life_doc (life_insurance_story d) = Inr b"
  shows "\<exists>w2. create_life_insurance_policy r' (w1\<lparr>today := d\<rparr>) = Inr w2 \<and>
     fs w2 = (fs w1)(life_path \<mapsto> File b) \<and> dom (fs w2) = dom (fs w1)"
proof -
  have c: "can_write (w1\<lparr>today := d\<rparr>) life_path"
    using assms(1) by (rule create_life_can_write_again)
  have e: "\<exists>x. fs w1 life_path = Some x"
    using assms(1) by (auto dest!: create_life_frame)
  from create_life_ok [OF c, of r' b] assms(2) e show ?thesis
    by (auto simp: dom_overwrite)
qed

lemma will_rerun:
  assumes "create_will_and_testament r w = Inr w1"
    and "r' will_doc will_story = Inr b"
  shows "\<exists>w2. create_will_and_testament r' (w1\<lparr>today := d\<rparr>) = Inr w2 \<and>
     fs w2 = (fs w1)(will_path \<mapsto> File b) \<and> dom (fs w2) = dom (fs w1)"
proof -
  have c: "can_write (w1\<lparr>today := d\<rparr>) will_path"
    using assms(1) by (rule create_will_can_write_again)
  have e: "\<exists>x. fs w1 will_path = Some x"
    using assms(1) by (auto dest!: create_will_frame)
  from create_will_ok [OF c, of r' b] assms(2) e show ?thesis
    by (auto simp: dom_overwrite)
qed

lemma id_rerun:
  assumes "create_state_id r w = Inr w1"
    and "r' id_doc state_id_story = Inr b"
  shows "\<exists>w2. create_state_id r' (w1\<lparr>today := d\<rparr>) = Inr w2 \<and>
     fs w2 = (fs w1)(id_path \<mapsto> File b) \<and> dom (fs w2) = dom (fs w1)"
proof -
  have c: "can_write (w1\<lparr>today := d\<rparr>) id_path"
    using assms(1) by (rule create_id_can_write_again)
  have e: "\<exists>x. fs w1 id_path = Some x"
    using assms(1) by (auto dest!: create_id_frame)
  from create_id_ok [OF c, of r' b] assms(2) e show ?thesis
    by (auto simp: dom_overwrite)
qed

lemma life_story_eq_iff:
  "life_insurance_story d = life_insurance_story d' \<longleftrightarrow> strftime_B_d_Y d = strftime_B_d_Y d'"
  by (simp add: life_insurance_story_def policy_data_def)

text \<open>
  Claim C7. After a builder has returned, its file exists and can be opened again, so a
  second run (on a later date \<open>d\<close>, with the renderer \<open>r'\<close> as it behaves then) returns
  as well: it stores the new bytes at the same path and adds no path. The content need
  not be the same: the life insurance policy carries the formatted current date, so its
  story differs between two runs whenever the formatted dates differ.
\<close>

theorem rerun_overwrites_at_same_path:
  "(create_life_insurance_policy r w = Inr w1 \<and> r' life_doc (life_insurance_story d) = Inr b \<longrightarrow>
      (\<exists>w2. create_life_insurance_policy r' (w1\<lparr>today := d\<rparr>) = Inr w2 \<and>
         fs w2 = (fs w1)(life_path \<mapsto> File b) \<and> dom (fs w2) = dom (fs w1))) \<and>
   (create_will_and_testament r w = Inr w1 \<and> r' will_doc will_story = Inr b \<longrightarrow>
      (\<exists>w2. create_will_and_testament r' (w1\<lparr>today := d\<rparr>) = Inr w2 \<and>
         fs w2 = (fs w1)(will_path \<mapsto> File b) \<and> dom (fs w2) = dom (fs w1))) \<and>
   (create_state_id r w = Inr w1 \<and> r' id_doc state_id_story = Inr b \<longrightarrow>
      (\<exists>w2. create_state_id r' (w1\<lparr>today := d\<rparr>) = Inr w2 \<and>
         fs w2 = (fs w1)(id_path \<mapsto> File b) \<and> dom (fs w2) = dom (fs w1))) \<and>
   (strftime_B_d_Y d \<noteq> strftime_B_d_Y (today w) \<longrightarrow>
      life_insurance_story d \<noteq> life_insurance_story (today w))"
  using life_rerun [of r w w1 r' d b] will_rerun [of r w w1 r' b d] id_rerun [of r w w1 r' b d]
    life_story_eq_iff [of d "today w"]
  by blast

lemma strftime_samples:
  "strftime_B_d_Y sample_date = ''November 03, 2026''"
  "strftime_B_d_Y later_date = ''December 25, 2026''"
  by (simp_all add: strftime_B_d_Y_def sample_date_def later_date_def digit_def dec.simps)

lemma sample_contents_differ:
  "sample_pdf (life_insurance_story later_date) \<noteq> sample_pdf (life_insurance_story sample_date)"
  by (simp add: sample_pdf_def life_insurance_story_def policy_data_def strftime_samples)

theorem rerun_overwrites_at_same_path_witness:
  "create_life_insurance_policy sample_render docs_world =
     Inr (wrote life_path (sample_pdf (life_insurance_story sample_date)) docs_world) \<and>
   sample_render life_doc (life_insurance_story later_date) =
     Inr (sample_pdf (life_insurance_story later_date)) \<and>
   (\<exists>w2. create_life_insurance_policy sample_render
            ((wrote life_path (sample_pdf (life_insurance_story sample_date)) docs_world)
               \<lparr>today := later_date\<rparr>) = Inr w2 \<and>
      fs w2 = (fs (wrote life_path (sample_pdf (life_insurance_story sample_date)) docs_world))
                (life_path \<mapsto> File (sample_pdf (life_insurance_story later_date))) \<and>
      dom (fs w2) = dom (fs (wrote life_path (sample_pdf (life_insurance_story sample_date)) docs_world))) \<and>
   create_will_and_testament sample_render docs_world =
     Inr (wrote will_path (sample_pdf will_story) docs_world) \<and>
   sample_render will_doc will_story = Inr (sample_pdf will_story) \<and>
   (\<exists>w2. create_will_and_testament sample_render
            ((wrote will_path (sample_pdf will_story) docs_world)\<lparr>today := later_date\<rparr>) = Inr w2 \<and>
      fs w2 = (fs (wrote will_path (sample_pdf will_story) docs_world))
                (will_path \<mapsto> File (sample_pdf will_story)) \<and>
      dom (fs w2) = dom (fs (wrote will_path (sample_pdf will_story) docs_world))) \<and>
   create_state_id sample_render docs_world =
     Inr (wrote id_path (sample_pdf state_id_story) docs_world) \<and>
   sample_render id_doc state_id_story = Inr (sample_pdf state_id_story) \<and>
   (\<exists>w2. create_state_id sample_render
            ((wrote id_path (sample_pdf state_id_story) docs_world)\<lparr>today := later_date\<rparr>) = Inr w2 \<and>
      fs w2 = (fs (wrote id_path (sample_pdf state_id_story) docs_world))
                (id_path \<mapsto> File (sample_pdf state_id_story)) \<and>
      dom (fs w2) = dom (fs (wrote id_path (sample_pdf state_id_story) docs_world))) \<and>
   strftime_B_d_Y later_date \<noteq> strftime_B_d_Y (today docs_world) \<and>
   life_insurance_story later_date \<noteq> life_insurance_story (today docs_world) \<and>
   sample_pdf (life_insurance_story later_date) \<noteq> sample_pdf (life_insurance_story sample_date)"
proof -
  let ?L = "wrote life_path (sample_pdf (life_insurance_story sample_date)) docs_world"
  let ?W = "wrote will_path (sample_pdf will_story) docs_world"
  let ?I = "wrote id_path (sample_pdf state_id_story) docs_world"
  note s = sample_builds_docs_world
  have rl: "sample_render life_doc (life_insurance_story later_date) =
     Inr (sample_pdf (life_insurance_story later_date))"
    by (simp add: sample_render_def)
  have rw: "sample_render will_doc will_story = Inr (sample_pdf will_story)"
    by (simp add: sample_render_def)
  have ri: "sample_render id_doc state_id_story = Inr (sample_pdf state_id_story)"
    by (simp add: sample_render_def)
  have ne: "strftime_B_d_Y later_date \<noteq> strftime_B_d_Y (today docs_world)"
    by (simp add: strftime_samples)
  note t = rerun_overwrites_at_same_path [of sample_render docs_world _ sample_render later_date]
  note t1 = t [THEN conjunct1, rule_format]
  note t2 = t [THEN conjunct2, THEN conjunct1, rule_format]
  note t3 = t [THEN conjunct2, THEN conjunct2, THEN conjunct1, rule_format]
  note t4 = t [THEN conjunct2, THEN conjunct2, THEN conjunct2, rule_format]
  have a: "\<exists>w2. create_life_insurance_policy sample_render (?L\<lparr>today := later_date\<rparr>) = Inr w2 \<and>
      fs w2 = (fs ?L)(life_path \<mapsto> File (sample_pdf (life_insurance_story later_date))) \<and>
      dom (fs w2) = dom (fs ?L)"
    by (rule t1 [OF conjI [OF s(1) rl]])
  have b: "\<exists>w2. create_will_and_testament sample_render (?W\<lparr>today := later_date\<rparr>) = Inr w2 \<and>
      fs w2 = (fs ?W)(will_path \<mapsto> File (sample_pdf will_story)) \<and>
      dom (fs w2) = dom (fs ?W)"
    by (rule t2 [OF conjI [OF s(2) rw]])
  have c: "\<exists>w2. create_state_id sample_render (?I\<lparr>today := later_date\<rparr>) = Inr w2 \<and>
      fs w2 = (fs ?I)(id_path \<mapsto> File (sample_pdf state_id_story)) \<and>
      dom (fs w2) = dom (fs ?I)"
    by (rule t3 [OF conjI [OF s(3) ri]])
  have d: "life_insurance_story later_date \<noteq> life_insurance_story (today docs_world)"
    by (rule t4 [OF ne])
  show ?thesis
    by (intro conjI s rl rw ri ne a b c d sample_contents_differ)
qed

section \<open>The output directory\<close>

lemma create_life_fresh:
  "fs w ''documents'' = Some Dir \<Longrightarrow> writable w ''documents'' \<Longrightarrow> fs w life_path = None \<Longrightarrow>
   r life_doc (life_insurance_story (today w)) = Inr b \<Longrightarrow>
   create_life_insurance_policy r w = Inr (wrote life_path b w)"
  by (simp add: create_life_insurance_policy_def doc_build_def Let_def write_file_def wrote_def)

lemma create_will_fresh:
  "fs w ''documents'' = Some Dir \<Longrightarrow> writable w ''documents'' \<Longrightarrow> fs w will_path = None \<Longrightarrow>
   r will_doc will_story = Inr b \<Longrightarrow>
   create_will_and_testament r w = Inr (wrote will_path b w)"
  by (simp add: create_will_and_testament_def doc_build_def Let_def write_file_def wrote_def)

lemma create_id_fresh:
  "fs w ''documents'' = Some Dir \<Longrightarrow> writable w ''documents'' \<Longrightarrow> fs w id_path = None \<Longrightarrow>
   r id_doc state_id_story = Inr b \<Longrightarrow>
   create_state_id r w = Inr (wrote id_path b w)"
  by (simp add: create_state_id_def doc_build_def Let_def write_file_def wrote_def)

lemma try_body_fresh:
  assumes "fs w0 ''documents'' = Some Dir" and "writable w0 ''documents''"
    and "fs w0 life_path = None" and "fs w0 will_path = None" and "fs w0 id_path = None"
    and "r life_doc (life_insurance_story (today w0)) = Inr b1"
    and "r will_doc will_story = Inr b2"
    and "r id_doc state_id_story = Inr b3"
  shows "try_body r w0 =
     (None, os_system ''ls -la documents/''
              (print ''Documents directory:''
                (print ([CHR 0x0A] @ ''Documents created successfully!'')
                  (wrote id_path b3 (wrote will_path b2 (wrote life_path b1 w0))))))"
proof -
  let ?W1 = "wrote life_path b1 w0"
  let ?W2 = "wrote will_path b2 ?W1"
  have l: "create_life_insurance_policy r w0 = Inr ?W1"
    using assms by (simp add: create_life_fresh)
  have w: "create_will_and_testament r ?W1 = Inr ?W2"
    using assms by (simp add: create_will_fresh)
  have i: "create_state_id r ?W2 = Inr (wrote id_path b3 ?W2)"
    using assms by (simp add: create_id_fresh)
  show ?thesis by (simp add: try_body_def l w i)
qed

lemma script_after_delete:
  assumes "reportlab_installed w" and "fs w ''documents'' = None" and "writable w ''.''"
    and "fs w life_path = None" and "fs w will_path = None" and "fs w id_path = None"
    and "r life_doc (life_insurance_story (today w)) = Inr b1"
    and "r will_doc will_story = Inr b2"
    and "r id_doc state_id_story = Inr b3"
  shows "fst (script r w) = Finished \<and>
     fs (snd (script r w)) =
       (fs w)(''documents'' \<mapsto> Dir, life_path \<mapsto> File b1, will_path \<mapsto> File b2,
              id_path \<mapsto> File b3)"
proof -
  let ?w1 = "w\<lparr>fs := (fs w)(''documents'' \<mapsto> Dir),
                writable := (writable w)(''documents'' := True)\<rparr>"
  have m: "os_makedirs ''documents'' w = Inr ?w1"
    using assms by (simp add: os_makedirs_def)
  have t: "try_body r (print banner ?w1) =
     (None, os_system ''ls -la documents/''
              (print ''Documents directory:''
                (print ([CHR 0x0A] @ ''Documents created successfully!'')
                  (wrote id_path b3 (wrote will_path b2 (wrote life_path b1 (print banner ?w1)))))))"
    using assms by (intro try_body_fresh) simp_all
  show ?thesis
    using assms(1) by (simp add: script_def m main_def Let_def t)
qed

lemma create_life_dirs:
  "create_life_insurance_policy r w = Inr w' \<Longrightarrow> (fs w' p = Some Dir) = (fs w p = Some Dir)"
  by (auto simp: create_life_Inr_iff write_file_Inr_iff can_write_def
      split: option.splits node.splits if_splits)

lemma create_will_dirs:
  "create_will_and_testament r w = Inr w' \<Longrightarrow> (fs w' p = Some Dir) = (fs w p = Some Dir)"
  by (auto simp: create_will_Inr_iff write_file_Inr_iff can_write_def
      split: option.splits node.splits if_splits)

lemma create_id_dirs:
  "create_state_id r w = Inr w' \<Longrightarrow> (fs w' p = Some Dir) = (fs w p = Some Dir)"
  by (auto simp: create_id_Inr_iff write_file_Inr_iff can_write_def
      split: option.splits node.splits if_splits)

lemma try_body_dirs:
  "(fs (snd (try_body r w0)) p = Some Dir) = (fs w0 p = Some Dir)"
  by (auto simp: try_body_def create_life_dirs create_will_dirs create_id_dirs
      split: sum.splits)

lemma main_dirs:
  "(fs (snd (main r w)) p = Some Dir) = (fs w p = Some Dir)"
proof -
  have "fs (snd (main r w)) = fs (snd (try_body r (print banner w)))"
    by (simp add: main_def Let_def split: prod.splits option.splits)
  then show ?thesis
    using try_body_dirs [of r "print banner w" p] by simp
qed

lemma makedirs_failure_ends_script:
  "os_makedirs ''documents'' w = Inl e \<Longrightarrow> snd (script r w) = w \<and> fst (script r w) \<noteq> Finished"
  by (simp add: script_def)

text \<open>
  Claim C5. \<^verbatim>\<open>os.makedirs('documents', exist_ok=True)\<close> is the first statement after the
  imports: where the directory is absent (and the current directory writable) it is
  created, and where it exists the call changes nothing. The main block runs on the
  world that call left, and does not run at all when the call raises. Nothing after it
  creates or removes a directory. So a run started after \<^verbatim>\<open>documents/\<close> was deleted,
  with the rendering library working, finishes normally, with the directory and the
  three files in place.
\<close>

theorem documents_directory_created_once_up_front:
  "(fs w ''documents'' = None \<and> writable w ''.'' \<longrightarrow>
      (\<exists>w'. os_makedirs ''documents'' w = Inr w' \<and> fs w' = (fs w)(''documents'' \<mapsto> Dir))) \<and>
   (fs w ''documents'' = Some Dir \<longrightarrow> os_makedirs ''documents'' w = Inr w) \<and>
   (reportlab_installed w \<and> os_makedirs ''documents'' w = Inr w1 \<longrightarrow> script r w = main r w1) \<and>
   (os_makedirs ''documents'' w = Inl e \<longrightarrow> snd (script r w) = w \<and> fst (script r w) \<noteq> Finished) \<and>
   (\<forall>p. (fs (snd (main r w)) p = Some Dir) = (fs w p = Some Dir)) \<and>
   (reportlab_installed w \<and> fs w ''documents'' = None \<and> writable w ''.'' \<and>
    fs w life_path = None \<and> fs w will_path = None \<and> fs w id_path = None \<and>
    r life_doc (life_insurance_story (today w)) = Inr b1 \<and>
    r will_doc will_story = Inr b2 \<and> r id_doc state_id_story = Inr b3 \<longrightarrow>
      fst (script r w) = Finished \<and>
      fs (snd (script r w)) =
        (fs w)(''documents'' \<mapsto> Dir, life_path \<mapsto> File b1, will_path \<mapsto> File b2,
               id_path \<mapsto> File b3))"
proof (intro conjI impI allI)
  assume "fs w ''documents'' = None \<and> writable w ''.''"
  then show "\<exists>w'. os_makedirs ''documents'' w = Inr w' \<and> fs w' = (fs w)(''documents'' \<mapsto> Dir)"
    by (simp add: os_makedirs_def)
next
  assume "fs w ''documents'' = Some Dir"
  then show "os_makedirs ''documents'' w = Inr w" by (simp add: os_makedirs_def)
next
  assume "reportlab_installed w \<and> os_makedirs ''documents'' w = Inr w1"
  then show "script r w = main r w1" by (simp add: script_def)
next
  assume "os_makedirs ''documents'' w = Inl e"
  then show "snd (script r w) = w" by (simp add: makedirs_failure_ends_script)
next
  assume "os_makedirs ''documents'' w = Inl e"
  then show "fst (script r w) \<noteq> Finished" by (simp add: makedirs_failure_ends_script)
next
  fix p show "(fs (snd (main r w)) p = Some Dir) = (fs w p = Some Dir)" by (rule main_dirs)
next
  assume a: "reportlab_installed w \<and> fs w ''documents'' = None \<and> writable w ''.'' \<and>
    fs w life_path = None \<and> fs w will_path = None \<and> fs w id_path = None \<and>
    r life_doc (life_insurance_story (today w)) = Inr b1 \<and>
    r will_doc will_story = Inr b2 \<and> r id_doc state_id_story = Inr b3"
  then show "fst (script r w) = Finished"
    using script_after_delete [of w r b1 b2 b3] by blast
next
  assume a: "reportlab_installed w \<and> fs w ''documents'' = None \<and> writable w ''.'' \<and>
    fs w life_path = None \<and> fs w will_path = None \<and> fs w id_path = None \<and>
    r life_doc (life_insurance_story (today w)) = Inr b1 \<and>
    r will_doc will_story = Inr b2 \<and> r id_doc state_id_story = Inr b3"
  then show "fs (snd (script r w)) =
        (fs w)(''documents'' \<mapsto> Dir, life_path \<mapsto> File b1, will_path \<mapsto> File b2,
               id_path \<mapsto> File b3)"
    using script_after_delete [of w r b1 b2 b3] by blast
qed

lemma blocked_world_fields [simp]:
  "fs blocked_world = [''documents'' \<mapsto> File ''not a directory'']"
  "writable blocked_world = (\<lambda>p. p = ''.'')"
  "stdout blocked_world = []"
  "spawned blocked_world = []"
  "reportlab_installed blocked_world"
  by (simp_all add: blocked_world_def)

lemma sample_render_stories:
  "sample_render life_doc (life_insurance_story d) = Inr (sample_pdf (life_insurance_story d))"
  "sample_render will_doc will_story = Inr (sample_pdf will_story)"
  "sample_render id_doc state_id_story = Inr (sample_pdf state_id_story)"
  by (simp_all add: sample_render_def)

theorem documents_directory_created_once_up_front_witness:
  "fs fresh_world ''documents'' = None \<and> writable fresh_world ''.'' \<and>
   (\<exists>w'. os_makedirs ''documents'' fresh_world = Inr w' \<and>
      fs w' = (fs fresh_world)(''documents'' \<mapsto> Dir)) \<and>
   fs docs_world ''documents'' = Some Dir \<and>
   os_makedirs ''documents'' docs_world = Inr docs_world \<and>
   reportlab_installed docs_world \<and>
   script sample_render docs_world = main sample_render docs_world \<and>
   os_makedirs ''documents'' blocked_world = Inl (FileExistsError ''documents'') \<and>
   snd (script sample_render blocked_world) = blocked_world \<and>
   fst (script sample_render blocked_world) \<noteq> Finished \<and>
   (fs (snd (main sample_render docs_world)) ''documents'' = Some Dir) =
     (fs docs_world ''documents'' = Some Dir) \<and>
   reportlab_installed fresh_world \<and>
   fs fresh_world life_path = None \<and> fs fresh_world will_path = None \<and>
   fs fresh_world id_path = None \<and>
   sample_render life_doc (life_insurance_story (today fresh_world)) =
     Inr (sample_pdf (life_insurance_story sample_date)) \<and>
   sample_render will_doc will_story = Inr (sample_pdf will_story) \<and>
   sample_render id_doc state_id_story = Inr (sample_pdf state_id_story) \<and>
   fst (script sample_render fresh_world) = Finished \<and>
   fs (snd (script sample_render fresh_world)) =
     (fs fresh_world)(''documents'' \<mapsto> Dir,
        life_path \<mapsto> File (sample_pdf (life_insurance_story sample_date)),
        will_path \<mapsto> File (sample_pdf will_story),
        id_path \<mapsto> File (sample_pdf state_id_story))"
proof -
  note t = documents_directory_created_once_up_front
  note tf = t [of fresh_world _ sample_render _ "sample_pdf (life_insurance_story sample_date)"
      "sample_pdf will_story" "sample_pdf state_id_story"]
  note td = t [of docs_world docs_world sample_render]
  note tb = t [of blocked_world _ sample_render "FileExistsError ''documents''"]
  have f1: "fs fresh_world ''documents'' = None" by simp
  have f2: "writable fresh_world ''.''" by simp
  have f3: "reportlab_installed fresh_world" by simp
  have f4: "fs fresh_world life_path = None" by simp
  have f5: "fs fresh_world will_path = None" by simp
  have f6: "fs fresh_world id_path = None" by simp
  have f7: "sample_render life_doc (life_insurance_story (today fresh_world)) =
     Inr (sample_pdf (life_insurance_story sample_date))"
    by (simp add: sample_render_stories)
  note f8 = sample_render_stories(2)
  note f9 = sample_render_stories(3)
  have d1: "fs docs_world ''documents'' = Some Dir" by simp
  have d2: "reportlab_installed docs_world" by simp
  have b1: "os_makedirs ''documents'' blocked_world = Inl (FileExistsError ''documents'')"
    by (simp add: os_makedirs_def)
  have c1: "\<exists>w'. os_makedirs ''documents'' fresh_world = Inr w' \<and>
      fs w' = (fs fresh_world)(''documents'' \<mapsto> Dir)"
    by (rule tf [THEN conjunct1, rule_format, OF conjI [OF f1 f2]])
  have c2: "os_makedirs ''documents'' docs_world = Inr docs_world"
    by (rule td [THEN conjunct2, THEN conjunct1, rule_format, OF d1])
  have c3: "script sample_render docs_world = main sample_render docs_world"
    by (rule td [THEN conjunct2, THEN conjunct2, THEN conjunct1, rule_format,
          OF conjI [OF d2 c2]])
  note c4 = tb [THEN conjunct2, THEN conjunct2, THEN conjunct2, THEN conjunct1, rule_format,
      OF b1]
  have c5: "(fs (snd (main sample_render docs_world)) ''documents'' = Some Dir) =
     (fs docs_world ''documents'' = Some Dir)"
    by (rule td [THEN conjunct2, THEN conjunct2, THEN conjunct2, THEN conjunct2,
          THEN conjunct1, rule_format])
  note c6 = tf [THEN conjunct2, THEN conjunct2, THEN conjunct2, THEN conjunct2,
      THEN conjunct2, rule_format,
      OF conjI [OF f3 conjI [OF f1 conjI [OF f2 conjI [OF f4 conjI [OF f5 conjI [OF f6
         conjI [OF f7 conjI [OF f8 f9]]]]]]]]]
  show ?thesis
    by (intro conjI f1 f2 f3 f4 f5 f6 f7 f8 f9 d1 d2 b1 c1 c2 c3 c4 [THEN conjunct1]
        c4 [THEN conjunct2] c5 c6 [THEN conjunct1] c6 [THEN conjunct2])
qed

section \<open>A successful run\<close>

lemma successful_try_body:
  assumes "fst (try_body r w0) = None"
  shows "\<exists>b1 b2 b3.
     r life_doc (life_insurance_story (today w0)) = Inr b1 \<and>
     r will_doc will_story = Inr b2 \<and> r id_doc state_id_story = Inr b3 \<and>
     fs (snd (try_body r w0)) =
       (fs w0)(life_path \<mapsto> File b1, will_path \<mapsto> File b2, id_path \<mapsto> File b3) \<and>
     stdout (snd (try_body r w0)) =
       stdout w0 @ [''Created: '' @ life_path, ''Created: '' @ will_path, ''Created: '' @ id_path,
         [CHR 0x0A] @ ''Documents created successfully!'', ''Documents directory:''] \<and>
     spawned (snd (try_body r w0)) = spawned w0 @ [''ls -la documents/'']"
proof -
  obtain wr where t: "try_body r w0 = (None, wr)"
    using assms by (cases "try_body r w0") simp
  then obtain w1 w2 w3 where l: "create_life_insurance_policy r w0 = Inr w1"
    and w: "create_will_and_testament r w1 = Inr w2"
    and i: "create_state_id r w2 = Inr w3"
    and wr: "wr = os_system ''ls -la documents/''
               (print ''Documents directory:''
                 (print ([CHR 0x0A] @ ''Documents created successfully!'') w3))"
    unfolding try_body_None_iff by blast
  note fl = create_life_frame [OF l]
  note fw = create_will_frame [OF w]
  note fi = create_id_frame [OF i]
  from fl fw fi show ?thesis
    unfolding t wr by auto
qed





lemma sample_try_body_docs_world:
  "try_body sample_render (print banner docs_world) =
     (None, os_system ''ls -la documents/''
              (print ''Documents directory:''
                (print ([CHR 0x0A] @ ''Documents created successfully!'')
                  (wrote id_path (sample_pdf state_id_story)
                    (wrote will_path (sample_pdf will_story)
                      (wrote life_path (sample_pdf (life_insurance_story sample_date))
                        (print banner docs_world)))))))"
  by (intro try_body_fresh) (simp_all add: sample_render_stories)




section \<open>Order of the builds and what they print\<close>

lemma main_stdout_cases:
  "(\<exists>e. create_life_insurance_policy r (print banner w) = Inl e \<and>
        stdout (snd (main r w)) = stdout w @ [banner] @
          (if is_Exception e then [''Error creating documents: '' @ str_exn e,
              ''Please ensure ReportLab is installed: pip install reportlab''] else [])) \<or>
   (\<exists>e w1. create_life_insurance_policy r (print banner w) = Inr w1 \<and>
        create_will_and_testament r w1 = Inl e \<and>
        stdout (snd (main r w)) = stdout w @ [banner, ''Created: '' @ life_path] @
          (if is_Exception e then [''Error creating documents: '' @ str_exn e,
              ''Please ensure ReportLab is installed: pip install reportlab''] else [])) \<or>
   (\<exists>e w1 w2. create_life_insurance_policy r (print banner w) = Inr w1 \<and>
        create_will_and_testament r w1 = Inr w2 \<and> create_state_id r w2 = Inl e \<and>
        stdout (snd (main r w)) =
          stdout w @ [banner, ''Created: '' @ life_path, ''Created: '' @ will_path] @
          (if is_Exception e then [''Error creating documents: '' @ str_exn e,
              ''Please ensure ReportLab is installed: pip install reportlab''] else [])) \<or>
   (fst (try_body r (print banner w)) = None \<and>
        stdout (snd (main r w)) =
          stdout w @ [banner, ''Created: '' @ life_path, ''Created: '' @ will_path,
            ''Created: '' @ id_path, [CHR 0x0A] @ ''Documents created successfully!'',
            ''Documents directory:''])"
proof (cases "try_body r (print banner w)")
  case (Pair eo wr)
  show ?thesis
  proof (cases eo)
    case None
    with Pair have n: "fst (try_body r (print banner w)) = None" by simp
    from successful_try_body [OF n] Pair None show ?thesis
      by (auto simp: main_def Let_def)
  next
    case (Some e)
    with Pair have t: "try_body r (print banner w) = (Some e, wr)" by simp
    have m: "stdout (snd (main r w)) = stdout wr @
        (if is_Exception e then [''Error creating documents: '' @ str_exn e,
              ''Please ensure ReportLab is installed: pip install reportlab''] else [])"
      using t by (simp add: main_def Let_def)
    from t [unfolded try_body_Some_iff] show ?thesis
    proof (elim disjE exE conjE)
      assume "create_life_insurance_policy r (print banner w) = Inl e" "wr = print banner w"
      with m show ?thesis by auto
    next
      fix w1 assume l: "create_life_insurance_policy r (print banner w) = Inr w1"
        and x: "create_will_and_testament r w1 = Inl e" and "wr = w1"
      with m create_life_frame [OF l] show ?thesis by auto
    next
      fix w1 w2 assume l: "create_life_insurance_policy r (print banner w) = Inr w1"
        and x: "create_will_and_testament r w1 = Inr w2"
        and y: "create_state_id r w2 = Inl e" and "wr = w2"
      with m create_life_frame [OF l] create_will_frame [OF x] show ?thesis by auto
    qed
  qed
qed

lemma main_stdout_prefix:
  "\<exists>k tail. k \<le> 3 \<and>
     stdout (snd (main r w)) =
       stdout w @ [banner] @
       take k [''Created: '' @ life_path, ''Created: '' @ will_path, ''Created: '' @ id_path] @
       tail \<and>
     set tail \<inter> {''Created: '' @ life_path, ''Created: '' @ will_path, ''Created: '' @ id_path} = {}"
proof -
  let ?err = "\<lambda>e. if is_Exception e then [''Error creating documents: '' @ str_exn e,
              ''Please ensure ReportLab is installed: pip install reportlab''] else []"
  let ?C = "{''Created: '' @ life_path, ''Created: '' @ will_path, ''Created: '' @ id_path}"
  have d: "set (?err e) \<inter> ?C = {}" for e by simp
  from main_stdout_cases [of r w] show ?thesis
  proof (elim disjE exE conjE)
    fix e assume "stdout (snd (main r w)) = stdout w @ [banner] @ ?err e"
    then show ?thesis
      using d [of e] by (intro exI [of _ 0] exI [of _ "?err e"]) simp
  next
    fix e assume "stdout (snd (main r w)) =
      stdout w @ [banner, ''Created: '' @ life_path] @ ?err e"
    then show ?thesis
      using d [of e] by (intro exI [of _ 1] exI [of _ "?err e"]) simp
  next
    fix e assume "stdout (snd (main r w)) =
      stdout w @ [banner, ''Created: '' @ life_path, ''Created: '' @ will_path] @ ?err e"
    then show ?thesis
      using d [of e] by (intro exI [of _ 2] exI [of _ "?err e"]) simp
  next
    assume "stdout (snd (main r w)) =
      stdout w @ [banner, ''Created: '' @ life_path, ''Created: '' @ will_path,
        ''Created: '' @ id_path, [CHR 0x0A] @ ''Documents created successfully!'',
        ''Documents directory:'']"
    then show ?thesis
      by (intro exI [of _ 3]
          exI [of _ "[[CHR 0x0A] @ ''Documents created successfully!'', ''Documents directory:'']"])
        simp
  qed
qed

lemma main_stdout_success:
  assumes "fst (try_body r (print banner w)) = None"
  shows "stdout (snd (main r w)) =
     stdout w @ [banner, ''Created: '' @ life_path, ''Created: '' @ will_path,
       ''Created: '' @ id_path, [CHR 0x0A] @ ''Documents created successfully!'',
       ''Documents directory:'']"
proof -
  obtain wr where t: "try_body r (print banner w) = (None, wr)"
    using assms by (cases "try_body r (print banner w)") simp
  from successful_try_body [OF assms] t show ?thesis
    by (auto simp: main_def Let_def)
qed

text \<open>
  Claim C9. A builder prints its line \<^verbatim>\<open>Created: \<close> followed by its file name (the path
  under \<^verbatim>\<open>documents/\<close>) exactly when it returns, that is after the renderer has yielded
  the bytes and they have been written; the line is appended to what was printed before.
  Whatever happens in a run, the output after the banner begins with the first \<open>k\<close> of
  the three lines in the order policy, will, state ID, for some \<open>k\<close>, and none of them
  occurs later: the builders run in that order. When all three succeed the output is the
  banner, the three lines and the two closing lines.
\<close>

theorem builders_run_in_fixed_order:
  "(create_life_insurance_policy r w = Inr w' \<longrightarrow>
      (\<exists>b. r life_doc (life_insurance_story (today w)) = Inr b) \<and>
      stdout w' = stdout w @ [''Created: documents/Life_Insurance_Policy.pdf'']) \<and>
   (create_will_and_testament r w = Inr w' \<longrightarrow>
      (\<exists>b. r will_doc will_story = Inr b) \<and>
      stdout w' = stdout w @ [''Created: documents/Last_Will_and_Testament.pdf'']) \<and>
   (create_state_id r w = Inr w' \<longrightarrow>
      (\<exists>b. r id_doc state_id_story = Inr b) \<and>
      stdout w' = stdout w @ [''Created: documents/State_ID_Card.pdf'']) \<and>
   (\<exists>k tail. k \<le> 3 \<and>
      stdout (snd (main r w)) =
        stdout w @ [banner] @
        take k [''Created: '' @ life_path, ''Created: '' @ will_path, ''Created: '' @ id_path] @
        tail \<and>
      set tail \<inter> {''Created: '' @ life_path, ''Created: '' @ will_path, ''Created: '' @ id_path}
        = {}) \<and>
   (fst (try_body r (print banner w)) = None \<longrightarrow>
      stdout (snd (main r w)) =
        stdout w @ [banner, ''Created: documents/Life_Insurance_Policy.pdf'',
          ''Created: documents/Last_Will_and_Testament.pdf'',
          ''Created: documents/State_ID_Card.pdf'',
          [CHR 0x0A] @ ''Documents created successfully!'', ''Documents directory:''])"
proof (intro conjI impI)
  assume a: "create_life_insurance_policy r w = Inr w'"
  from create_life_frame [OF a]
  show "\<exists>b. r life_doc (life_insurance_story (today w)) = Inr b" by blast
  from create_life_frame [OF a]
  show "stdout w' = stdout w @ [''Created: documents/Life_Insurance_Policy.pdf'']" by simp
next
  assume a: "create_will_and_testament r w = Inr w'"
  from create_will_frame [OF a] show "\<exists>b. r will_doc will_story = Inr b" by blast
  from create_will_frame [OF a]
  show "stdout w' = stdout w @ [''Created: documents/Last_Will_and_Testament.pdf'']" by simp
next
  assume a: "create_state_id r w = Inr w'"
  from create_id_frame [OF a] show "\<exists>b. r id_doc state_id_story = Inr b" by blast
  from create_id_frame [OF a]
  show "stdout w' = stdout w @ [''Created: documents/State_ID_Card.pdf'']" by simp
next
  show "\<exists>k tail. k \<le> 3 \<and>
      stdout (snd (main r w)) =
        stdout w @ [banner] @
        take k [''Created: '' @ life_path, ''Created: '' @ will_path, ''Created: '' @ id_path] @
        tail \<and>
      set tail \<inter> {''Created: '' @ life_path, ''Created: '' @ will_path, ''Created: '' @ id_path}
        = {}"
    by (rule main_stdout_prefix)
next
  assume "fst (try_body r (print banner w)) = None"
  from main_stdout_success [OF this]
  show "stdout (snd (main r w)) =
        stdout w @ [banner, ''Created: documents/Life_Insurance_Policy.pdf'',
          ''Created: documents/Last_Will_and_Testament.pdf'',
          ''Created: documents/State_ID_Card.pdf'',
          [CHR 0x0A] @ ''Documents created successfully!'', ''Documents directory:'']"
    by simp
qed

theorem builders_run_in_fixed_order_witness:
  "create_life_insurance_policy sample_render docs_world =
     Inr (wrote life_path (sample_pdf (life_insurance_story sample_date)) docs_world) \<and>
   (\<exists>b. sample_render life_doc (life_insurance_story (today docs_world)) = Inr b) \<and>
   stdout (wrote life_path (sample_pdf (life_insurance_story sample_date)) docs_world) =
     stdout docs_world @ [''Created: documents/Life_Insurance_Policy.pdf''] \<and>
   create_will_and_testament sample_render docs_world =
     Inr (wrote will_path (sample_pdf will_story) docs_world) \<and>
   (\<exists>b. sample_render will_doc will_story = Inr b) \<and>
   stdout (wrote will_path (sample_pdf will_story) docs_world) =
     stdout docs_world @ [''Created: documents/Last_Will_and_Testament.pdf''] \<and>
   create_state_id sample_render docs_world =
     Inr (wrote id_path (sample_pdf state_id_story) docs_world) \<and>
   (\<exists>b. sample_render id_doc state_id_story = Inr b) \<and>
   stdout (wrote id_path (sample_pdf state_id_story) docs_world) =
     stdout docs_world @ [''Created: documents/State_ID_Card.pdf''] \<and>
   fst (try_body sample_render (print banner docs_world)) = None \<and>
   stdout (snd (main sample_render docs_world)) =
     stdout docs_world @ [banner, ''Created: documents/Life_Insurance_Policy.pdf'',
       ''Created: documents/Last_Will_and_Testament.pdf'',
       ''Created: documents/State_ID_Card.pdf'',
       [CHR 0x0A] @ ''Documents created successfully!'', ''Documents directory:'']"
proof -
  note s = sample_builds_docs_world
  note t = builders_run_in_fixed_order [of sample_render docs_world]
  note t1 = t [THEN conjunct1, rule_format, OF s(1)]
  note t2 = t [THEN conjunct2, THEN conjunct1, rule_format, OF s(2)]
  note t3 = t [THEN conjunct2, THEN conjunct2, THEN conjunct1, rule_format, OF s(3)]
  have d: "fst (try_body sample_render (print banner docs_world)) = None"
    by (simp add: sample_try_body_docs_world)
  note t5 = t [THEN conjunct2, THEN conjunct2, THEN conjunct2, THEN conjunct2, rule_format, OF d]
  show ?thesis
    by (intro conjI s d t1 [THEN conjunct1] t1 [THEN conjunct2] t2 [THEN conjunct1]
        t2 [THEN conjunct2] t3 [THEN conjunct1] t3 [THEN conjunct2] t5)
qed

section \<open>The directory listing\<close>

lemma os_makedirs_spawned:
  "os_makedirs ''documents'' w = Inr w0 \<Longrightarrow> spawned w0 = spawned w"
  by (auto simp: os_makedirs_def split: option.splits node.splits if_splits)

lemma main_spawned:
  "spawned (snd (main r w)) =
     (if fst (try_body r (print banner w)) = None then spawned w @ [''ls -la documents/'']
      else spawned w)"
proof (cases "try_body r (print banner w)")
  case (Pair eo wr)
  show ?thesis
  proof (cases eo)
    case None
    with Pair have n: "fst (try_body r (print banner w)) = None" by simp
    from successful_try_body [OF n] Pair None show ?thesis
      by (auto simp: main_def Let_def)
  next
    case (Some e)
    with Pair have t: "try_body r (print banner w) = (Some e, wr)" by simp
    from try_body_Some_spawned [OF t] t show ?thesis
      by (simp add: main_def Let_def)
  qed
qed

lemma all_builds_succeed_iff:
  "fst (try_body r w0) = None \<longleftrightarrow>
     (\<exists>w1 w2 w3. create_life_insurance_policy r w0 = Inr w1 \<and>
        create_will_and_testament r w1 = Inr w2 \<and> create_state_id r w2 = Inr w3)"
  by (auto simp: try_body_def split: sum.splits)

text \<open>
  Claim C10. Besides printing and writing the three files, a run does one more thing,
  and only when everything before it went through: when the imports and
  \<^verbatim>\<open>os.makedirs\<close> succeeded and the three builds returned one after another, the
  command \<^verbatim>\<open>ls -la documents/\<close> is handed to a shell, once; in every other run no
  command is spawned at all.
\<close>

theorem listing_spawned_iff_all_builds_succeed:
  "spawned (snd (script r w)) =
     (if reportlab_installed w \<and>
         (\<exists>w0 w1 w2 w3. os_makedirs ''documents'' w = Inr w0 \<and>
            create_life_insurance_policy r (print banner w0) = Inr w1 \<and>
            create_will_and_testament r w1 = Inr w2 \<and> create_state_id r w2 = Inr w3)
      then spawned w @ [''ls -la documents/'']
      else spawned w)"
proof (cases "reportlab_installed w")
  case False
  then show ?thesis by (simp add: script_def)
next
  case True
  show ?thesis
  proof (cases "os_makedirs ''documents'' w")
    case (Inl e)
    with True show ?thesis by (simp add: script_def)
  next
    case (Inr w0)
    have s: "spawned w0 = spawned w" using Inr by (rule os_makedirs_spawned)
    have "script r w = main r w0" using True Inr by (simp add: script_def)
    then have "spawned (snd (script r w)) =
       (if fst (try_body r (print banner w0)) = None then spawned w @ [''ls -la documents/'']
        else spawned w)"
      using main_spawned [of r w0] s by simp
    then show ?thesis
      using True Inr by (simp add: all_builds_succeed_iff)
  qed
qed

theorem listing_spawned_iff_all_builds_succeed_witness:
  "spawned (snd (script sample_render docs_world)) = [''ls -la documents/''] \<and>
   spawned (snd (script (failing_render [id_path]) docs_world)) = [] \<and>
   spawned (snd (script sample_render blocked_world)) = []"
proof -
  have m: "os_makedirs ''documents'' docs_world = Inr docs_world"
    by (simp add: os_makedirs_def)
  have b: "os_makedirs ''documents'' blocked_world = Inl (FileExistsError ''documents'')"
    by (simp add: os_makedirs_def)
  have ok: "\<exists>w0 w1 w2 w3. os_makedirs ''documents'' docs_world = Inr w0 \<and>
      create_life_insurance_policy sample_render (print banner w0) = Inr w1 \<and>
      create_will_and_testament sample_render w1 = Inr w2 \<and>
      create_state_id sample_render w2 = Inr w3"
    using m sample_try_body_docs_world
      all_builds_succeed_iff [of sample_render "print banner docs_world"]
    by auto
  have t: "try_body (failing_render [id_path]) (print banner docs_world) =
     (Some (LayoutError ''Flowable too large on page 1''),
      wrote will_path (sample_pdf will_story)
        (wrote life_path (sample_pdf (life_insurance_story sample_date))
          (print banner docs_world)))"
    using sample_life_ok [of "[id_path]" "print banner docs_world"]
      sample_will_ok [of "[id_path]"
        "wrote life_path (sample_pdf (life_insurance_story sample_date)) (print banner docs_world)"]
      sample_id_fails [of "[id_path]"]
    by (simp add: try_body_def)
  have bad: "\<not> (\<exists>w0 w1 w2 w3. os_makedirs ''documents'' docs_world = Inr w0 \<and>
      create_life_insurance_policy (failing_render [id_path]) (print banner w0) = Inr w1 \<and>
      create_will_and_testament (failing_render [id_path]) w1 = Inr w2 \<and>
      create_state_id (failing_render [id_path]) w2 = Inr w3)"
    using m t all_builds_succeed_iff [of "failing_render [id_path]" "print banner docs_world"]
    by auto
  have c1: "spawned (snd (script sample_render docs_world)) = [''ls -la documents/'']"
    using listing_spawned_iff_all_builds_succeed [of sample_render docs_world] ok by simp
  have c2: "spawned (snd (script (failing_render [id_path]) docs_world)) = []"
    using listing_spawned_iff_all_builds_succeed [of "failing_render [id_path]" docs_world] bad
    by simp
  have c3: "spawned (snd (script sample_render blocked_world)) = []"
    using listing_spawned_iff_all_builds_succeed [of sample_render blocked_world] b by simp
  show ?thesis by (intro conjI c1 c2 c3)
qed

end
